theory Spec2Isabelle
  imports Complex_Main
begin

section \<open>Vector kernel (common/math\_utils.hpp)\<close>

text \<open>
  The C++ \<^verbatim>\<open>float\<close> is modelled by \<^typ>\<open>real\<close>: rounding and overflow are outside the
  model. The one operation of the source whose value leaves the reals is a division by zero.
  Where the source guards the divisor (\<^verbatim>\<open>mag > 0\<close>, \<^verbatim>\<open>distance > 0\<close>,
  \<^verbatim>\<open>count > 0\<close>, a population that is not empty, a sum of a non-negative number and
  0.1) the model uses the plain quotient; where it does not, the quotient is the checked
  \<open>fdiv\<close> below, and the failure is carried to the result.

  Over the reals a normalised vector of positive magnitude has length exactly 1, and the
  inequality of Cauchy and Schwarz holds; the float quotients of \<^verbatim>\<open>normalized()\<close> give a
  length that can differ from 1 in the last place. The statements on the clamps of
  \<^verbatim>\<open>truncate\<close> and \<^verbatim>\<open>Boid::update\<close> and on the alignment level are therefore given
  through the expressions and comparisons the code evaluates, and claim no bound that rests
  on that length.
\<close>

datatype Vector2D = Vector2D (x2: real) (y2: real)

datatype Vector3D = Vector3D (x3: real) (y3: real) (z3: real)

instantiation Vector2D :: "{zero, plus, minus}"
begin

definition zero_Vector2D :: Vector2D where
  "zero_Vector2D = Vector2D 0 0"

definition plus_Vector2D :: "Vector2D \<Rightarrow> Vector2D \<Rightarrow> Vector2D" where
  "plus_Vector2D a b = Vector2D (x2 a + x2 b) (y2 a + y2 b)"

definition minus_Vector2D :: "Vector2D \<Rightarrow> Vector2D \<Rightarrow> Vector2D" where
  "minus_Vector2D a b = Vector2D (x2 a - x2 b) (y2 a - y2 b)"

instance ..

end

instantiation Vector3D :: "{zero, plus, minus}"
begin

definition zero_Vector3D :: Vector3D where
  "zero_Vector3D = Vector3D 0 0 0"

definition plus_Vector3D :: "Vector3D \<Rightarrow> Vector3D \<Rightarrow> Vector3D" where
  "plus_Vector3D a b = Vector3D (x3 a + x3 b) (y3 a + y3 b) (z3 a + z3 b)"

definition minus_Vector3D :: "Vector3D \<Rightarrow> Vector3D \<Rightarrow> Vector3D" where
  "minus_Vector3D a b = Vector3D (x3 a - x3 b) (y3 a - y3 b) (z3 a - z3 b)"

instance ..

end

text \<open>\<^verbatim>\<open>operator*(float scalar)\<close>.\<close>

definition scale2 :: "Vector2D \<Rightarrow> real \<Rightarrow> Vector2D" where
  "scale2 v s = Vector2D (x2 v * s) (y2 v * s)"

definition scale3 :: "Vector3D \<Rightarrow> real \<Rightarrow> Vector3D" where
  "scale3 v s = Vector3D (x3 v * s) (y3 v * s) (z3 v * s)"

definition magnitude2 :: "Vector2D \<Rightarrow> real" where
  "magnitude2 v = sqrt (x2 v * x2 v + y2 v * y2 v)"

definition magnitude :: "Vector3D \<Rightarrow> real" where
  "magnitude v = sqrt (x3 v * x3 v + y3 v * y3 v + z3 v * z3 v)"

text \<open>
  Division as the source performs it on floats: a zero divisor gives an infinity or a NaN,
  which is no real number, so the quotient is \<open>None\<close> there.
\<close>

definition fdiv :: "real \<Rightarrow> real \<Rightarrow> real option" where
  "fdiv a b = (if b = 0 then None else Some (a / b))"

text \<open>
  \<^verbatim>\<open>normalized()\<close> with every division checked: \<open>None\<close> would be a component
  that is NaN or infinite.
\<close>

definition normalized2_checked :: "Vector2D \<Rightarrow> Vector2D option" where
  "normalized2_checked v =
     (let mag = magnitude2 v in
      if mag > 0 then
        (case (fdiv (x2 v) mag, fdiv (y2 v) mag) of
           (Some a, Some b) \<Rightarrow> Some (Vector2D a b)
         | _ \<Rightarrow> None)
      else Some (Vector2D 0 0))"

definition normalized_checked :: "Vector3D \<Rightarrow> Vector3D option" where
  "normalized_checked v =
     (let mag = magnitude v in
      if mag > 0 then
        (case (fdiv (x3 v) mag, fdiv (y3 v) mag, fdiv (z3 v) mag) of
           (Some a, Some b, Some c) \<Rightarrow> Some (Vector3D a b c)
         | _ \<Rightarrow> None)
      else Some (Vector3D 0 0 0))"

text \<open>The same functions with the plain quotient, as used by the rest of the code.\<close>

definition normalized2 :: "Vector2D \<Rightarrow> Vector2D" where
  "normalized2 v =
     (let mag = magnitude2 v in
      if mag > 0 then Vector2D (x2 v / mag) (y2 v / mag) else Vector2D 0 0)"

definition normalized :: "Vector3D \<Rightarrow> Vector3D" where
  "normalized v =
     (let mag = magnitude v in
      if mag > 0 then Vector3D (x3 v / mag) (y3 v / mag) (z3 v / mag) else Vector3D 0 0 0)"

definition dot :: "Vector3D \<Rightarrow> Vector3D \<Rightarrow> real" where
  "dot a b = x3 a * x3 b + y3 a * y3 b + z3 a * z3 b"

section \<open>Agent state (common/agent.hpp)\<close>

text \<open>
  A data member \<^verbatim>\<open>name_\<close> of a C++ class is the record field \<open>m_name\<close>.

  \<^verbatim>\<open>std::any\<close>: a value together with its dynamic type. The universe holds the types the
  repository stores in an agent's memory (int, float, Vector3D) and two more.
\<close>

datatype any = AnyInt int | AnyFloat real | AnyBool bool | AnyString string | AnyVector3D Vector3D

datatype type_info = TInt | TFloat | TBool | TString | TVector3D

fun any_type :: "any \<Rightarrow> type_info" where
  "any_type (AnyInt _) = TInt"
| "any_type (AnyFloat _) = TFloat"
| "any_type (AnyBool _) = TBool"
| "any_type (AnyString _) = TString"
| "any_type (AnyVector3D _) = TVector3D"

datatype exception = bad_any_cast

text \<open>\<^verbatim>\<open>std::any_cast<T>\<close>: throws unless the operand holds exactly a \<^verbatim>\<open>T\<close>.\<close>

definition any_cast :: "type_info \<Rightarrow> any \<Rightarrow> exception + any" where
  "any_cast T operand = (if any_type operand = T then Inr operand else Inl bad_any_cast)"

record Agent =
  m_id :: string
  m_position :: Vector3D
  m_velocity :: Vector3D
  m_health :: real
  m_energy :: real
  m_memory :: "string \<rightharpoonup> any"

definition setHealth :: "real \<Rightarrow> 'a Agent_scheme \<Rightarrow> 'a Agent_scheme" where
  "setHealth health a = a\<lparr>m_health := max 0 (min 100 health)\<rparr>"

definition setEnergy :: "real \<Rightarrow> 'a Agent_scheme \<Rightarrow> 'a Agent_scheme" where
  "setEnergy energy a = a\<lparr>m_energy := max 0 (min 100 energy)\<rparr>"

definition setMemory :: "string \<Rightarrow> any \<Rightarrow> 'a Agent_scheme \<Rightarrow> 'a Agent_scheme" where
  "setMemory key v a = a\<lparr>m_memory := (m_memory a)(key \<mapsto> v)\<rparr>"

text \<open>
  \<^verbatim>\<open>getMemory<T>(key, defaultValue)\<close>. The result is paired with the agent after the
  call; \<open>Inl\<close> would be an exception leaving the function.
\<close>

definition getMemory ::
  "type_info \<Rightarrow> string \<Rightarrow> any \<Rightarrow> 'a Agent_scheme \<Rightarrow> (exception + any) \<times> 'a Agent_scheme" where
  "getMemory T key defaultValue a =
     (case m_memory a key of
        Some stored \<Rightarrow>
          (case any_cast T stored of
             Inr r \<Rightarrow> (Inr r, a)
           | Inl bad_any_cast \<Rightarrow> (Inr defaultValue, a))
      | None \<Rightarrow> (Inr defaultValue, a))"

definition hasMemory :: "string \<Rightarrow> 'a Agent_scheme \<Rightarrow> bool" where
  "hasMemory key a = (m_memory a key \<noteq> None)"

section \<open>Boids and the crowd simulation (crowds/flocking.hpp, flocking.cpp)\<close>

text \<open>
  A \<^verbatim>\<open>Boid*\<close> is an index into the vector \<^verbatim>\<open>boids_\<close> that owns the boids; the
  functions of a boid take that vector (the store) and the index of \<^verbatim>\<open>this\<close>, and read
  their neighbours through it, as the source reads them through the pointers.
\<close>

record Boid = Agent +
  m_neighbors :: "nat list"
  m_separationWeight :: real
  m_alignmentWeight :: real
  m_cohesionWeight :: real
  m_separationRadius :: real
  m_alignmentRadius :: real
  m_cohesionRadius :: real

definition new_Boid :: "string \<Rightarrow> Vector3D \<Rightarrow> Boid" where
  "new_Boid ident position =
     \<lparr>m_id = ident, m_position = position, m_velocity = Vector3D 0 0 0,
      m_health = 100, m_energy = 100, m_memory = Map.empty,
      m_neighbors = [], m_separationWeight = 3 / 2, m_alignmentWeight = 1, m_cohesionWeight = 1,
      m_separationRadius = 2, m_alignmentRadius = 4, m_cohesionRadius = 6\<rparr>"

definition Boid_calculateSeparation :: "Boid list \<Rightarrow> nat \<Rightarrow> Vector3D" where
  "Boid_calculateSeparation store this =
     (let self = store ! this;
          (steer, count) =
            fold (\<lambda>neighbor (steer, count).
                    let distance = magnitude (m_position self - m_position (store ! neighbor)) in
                    if distance > 0 \<and> distance < m_separationRadius self then
                      let diff = m_position self - m_position (store ! neighbor);
                          diff = normalized diff;
                          diff = scale3 diff (1 / distance)
                      in (steer + diff, count + 1)
                    else (steer, count))
                 (m_neighbors self) (Vector3D 0 0 0, 0 :: nat)
      in if count > 0 then
           let steer = scale3 steer (1 / real count) in scale3 (normalized steer) 10
         else steer)"

definition Boid_calculateAlignment :: "Boid list \<Rightarrow> nat \<Rightarrow> Vector3D" where
  "Boid_calculateAlignment store this =
     (let self = store ! this;
          (average, count) =
            fold (\<lambda>neighbor (average, count).
                    let distance = magnitude (m_position self - m_position (store ! neighbor)) in
                    if distance > 0 \<and> distance < m_alignmentRadius self then
                      (average + m_velocity (store ! neighbor), count + 1)
                    else (average, count))
                 (m_neighbors self) (Vector3D 0 0 0, 0 :: nat)
      in if count > 0 then
           let average = scale3 average (1 / real count);
               average = scale3 (normalized average) 10;
               steer = average - m_velocity self
           in steer
         else Vector3D 0 0 0)"

definition Boid_calculateCohesion :: "Boid list \<Rightarrow> nat \<Rightarrow> Vector3D" where
  "Boid_calculateCohesion store this =
     (let self = store ! this;
          (center, count) =
            fold (\<lambda>neighbor (center, count).
                    let distance = magnitude (m_position self - m_position (store ! neighbor)) in
                    if distance > 0 \<and> distance < m_cohesionRadius self then
                      (center + m_position (store ! neighbor), count + 1)
                    else (center, count))
                 (m_neighbors self) (Vector3D 0 0 0, 0 :: nat)
      in if count > 0 then
           let center = scale3 center (1 / real count);
               desired = center - m_position self;
               desired = scale3 (normalized desired) 10;
               steer = desired - m_velocity self
           in steer
         else Vector3D 0 0 0)"

text \<open>The force that \<^verbatim>\<open>Boid::update\<close> integrates (its local \<^verbatim>\<open>totalForce\<close>).\<close>

definition Boid_totalForce :: "Boid list \<Rightarrow> nat \<Rightarrow> Vector3D" where
  "Boid_totalForce store this =
     (let self = store ! this;
          separation = scale3 (Boid_calculateSeparation store this) (m_separationWeight self);
          alignment = scale3 (Boid_calculateAlignment store this) (m_alignmentWeight self);
          cohesion = scale3 (Boid_calculateCohesion store this) (m_cohesionWeight self)
      in separation + alignment + cohesion)"

text \<open>
  \<^verbatim>\<open>Boid::update\<close>: the boid at \<open>this\<close> after the call. The clamped velocity
  \<^verbatim>\<open>newVelocity.normalized() * maxSpeed\<close> has magnitude 8 over the reals; the float product
  of the source can round above 8.
\<close>

definition Boid_update :: "real \<Rightarrow> Boid list \<Rightarrow> nat \<Rightarrow> Boid" where
  "Boid_update deltaTime store this =
     (let self = store ! this;
          totalForce = Boid_totalForce store this;
          acceleration = totalForce;
          newVelocity = m_velocity self + scale3 acceleration deltaTime;
          maxSpeed = 8;
          newVelocity = (if magnitude newVelocity > maxSpeed
                         then scale3 (normalized newVelocity) maxSpeed else newVelocity);
          newPosition = m_position self + scale3 newVelocity deltaTime
      in self\<lparr>m_position := newPosition, m_velocity := newVelocity\<rparr>)"

record CrowdSimulation =
  m_boids :: "Boid list"
  m_neighborRadius :: real
  m_boundaryMin :: Vector3D
  m_boundaryMax :: Vector3D

definition new_CrowdSimulation :: CrowdSimulation where
  "new_CrowdSimulation =
     \<lparr>m_boids = [], m_neighborRadius = 10,
      m_boundaryMin = Vector3D (- 50) (- 50) (- 50), m_boundaryMax = Vector3D 50 50 50\<rparr>"

definition addBoid :: "Boid \<Rightarrow> CrowdSimulation \<Rightarrow> CrowdSimulation" where
  "addBoid boid sim = sim\<lparr>m_boids := m_boids sim @ [boid]\<rparr>"

definition setNeighborRadius :: "real \<Rightarrow> CrowdSimulation \<Rightarrow> CrowdSimulation" where
  "setNeighborRadius r sim = sim\<lparr>m_neighborRadius := r\<rparr>"

definition setBoundary :: "Vector3D \<Rightarrow> Vector3D \<Rightarrow> CrowdSimulation \<Rightarrow> CrowdSimulation" where
  "setBoundary lo hi sim = sim\<lparr>m_boundaryMin := lo, m_boundaryMax := hi\<rparr>"

definition findNeighbors :: "CrowdSimulation \<Rightarrow> nat \<Rightarrow> nat list" where
  "findNeighbors sim boid =
     fold (\<lambda>otherBoid neighbors.
             if otherBoid \<noteq> boid then
               let distance = magnitude (m_position (m_boids sim ! boid)
                                         - m_position (m_boids sim ! otherBoid)) in
               if distance \<le> m_neighborRadius sim then neighbors @ [otherBoid] else neighbors
             else neighbors)
          [0..<length (m_boids sim)] []"

text \<open>
  The value of the local \<^verbatim>\<open>boundaryForce\<close> of \<^verbatim>\<open>applyBoundaryForces\<close> after its
  six tests, for a boid at \<open>position\<close>.
\<close>

definition boundaryForce :: "CrowdSimulation \<Rightarrow> Vector3D \<Rightarrow> Vector3D" where
  "boundaryForce sim position =
     (let margin = 5;
          forceStrength = 20;
          fx = 0;
          fy = 0;
          fz = 0;
          fx = (if x3 position < x3 (m_boundaryMin sim) + margin then fx + forceStrength else fx);
          fx = (if x3 position > x3 (m_boundaryMax sim) - margin then fx - forceStrength else fx);
          fy = (if y3 position < y3 (m_boundaryMin sim) + margin then fy + forceStrength else fy);
          fy = (if y3 position > y3 (m_boundaryMax sim) - margin then fy - forceStrength else fy);
          fz = (if z3 position < z3 (m_boundaryMin sim) + margin then fz + forceStrength else fz);
          fz = (if z3 position > z3 (m_boundaryMax sim) - margin then fz - forceStrength else fz)
      in Vector3D fx fy fz)"

definition applyBoundaryForces :: "CrowdSimulation \<Rightarrow> Boid \<Rightarrow> Boid" where
  "applyBoundaryForces sim boid =
     (let position = m_position boid;
          velocity = m_velocity boid;
          force = boundaryForce sim position
      in if magnitude force > 0
         then boid\<lparr>m_velocity := velocity + scale3 force (16 / 1000)\<rparr>
         else boid)"

text \<open>
  \<^verbatim>\<open>CrowdSimulation::update\<close> is two loops over \<^verbatim>\<open>boids_\<close>, whose length no step
  changes. The body of the first loop replaces one boid's snapshot.
\<close>

definition setNeighborsOf :: "nat \<Rightarrow> CrowdSimulation \<Rightarrow> CrowdSimulation" where
  "setNeighborsOf i sim =
     (let neighbors = findNeighbors sim i
      in sim\<lparr>m_boids := (m_boids sim)[i := (m_boids sim ! i)\<lparr>m_neighbors := neighbors\<rparr>]\<rparr>)"

text \<open>The body of the second loop: the boid moves, then containment acts on it.\<close>

definition moveBoid :: "real \<Rightarrow> nat \<Rightarrow> CrowdSimulation \<Rightarrow> CrowdSimulation" where
  "moveBoid deltaTime i sim =
     (let sim = sim\<lparr>m_boids := (m_boids sim)[i := Boid_update deltaTime (m_boids sim) i]\<rparr>
      in sim\<lparr>m_boids := (m_boids sim)[i := applyBoundaryForces sim (m_boids sim ! i)]\<rparr>)"

definition rebuildNeighbors :: "CrowdSimulation \<Rightarrow> CrowdSimulation" where
  "rebuildNeighbors sim = fold setNeighborsOf [0..<length (m_boids sim)] sim"

definition moveBoids :: "real \<Rightarrow> CrowdSimulation \<Rightarrow> CrowdSimulation" where
  "moveBoids deltaTime sim = fold (moveBoid deltaTime) [0..<length (m_boids sim)] sim"

definition CrowdSimulation_update :: "real \<Rightarrow> CrowdSimulation \<Rightarrow> CrowdSimulation" where
  "CrowdSimulation_update deltaTime sim = moveBoids deltaTime (rebuildNeighbors sim)"

section \<open>Emergent behaviour detector (crowds/flocking.cpp)\<close>

datatype BehaviorPattern = Flocking | Schooling | Swarming | Milling | Splitting | Unknown

text \<open>
  \<^verbatim>\<open>calculateAlignmentLevel\<close>. The dot product of the two normalised vectors is at most 1
  over the reals; in float it can be 1 plus a rounding error, and the level with it.
\<close>

definition calculateAlignmentLevel :: "Boid list \<Rightarrow> real" where
  "calculateAlignmentLevel boids =
     (if boids = [] then 0
      else
        let avgVelocity = fold (\<lambda>boid avg. avg + m_velocity boid) boids (Vector3D 0 0 0);
            avgVelocity = scale3 avgVelocity (1 / real (length boids));
            totalAlignment =
              fold (\<lambda>boid total.
                      let vel = m_velocity boid in
                      if magnitude vel > 0 \<and> magnitude avgVelocity > 0 then
                        let dotp = dot (normalized vel) (normalized avgVelocity)
                        in total + (dotp + 1) / 2
                      else total)
                   boids 0
        in totalAlignment / real (length boids))"

definition calculateCohesionLevel :: "Boid list \<Rightarrow> real" where
  "calculateCohesionLevel boids =
     (if boids = [] then 0
      else
        let center = fold (\<lambda>boid c. c + m_position boid) boids (Vector3D 0 0 0);
            center = scale3 center (1 / real (length boids));
            avgDistance = fold (\<lambda>boid d. d + magnitude (m_position boid - center)) boids 0;
            avgDistance = avgDistance / real (length boids)
        in 1 / (1 + avgDistance * (1 / 10)))"

definition calculateVelocityVariance :: "Boid list \<Rightarrow> real" where
  "calculateVelocityVariance boids =
     (if boids = [] then 0
      else
        let avgSpeed = fold (\<lambda>boid s. s + magnitude (m_velocity boid)) boids 0;
            avgSpeed = avgSpeed / real (length boids);
            variance =
              fold (\<lambda>boid var.
                      let speed = magnitude (m_velocity boid)
                      in var + (speed - avgSpeed) * (speed - avgSpeed))
                   boids 0;
            variance = variance / real (length boids)
        in sqrt variance / (avgSpeed + 1 / 10))"

definition detectPattern :: "Boid list \<Rightarrow> BehaviorPattern" where
  "detectPattern boids =
     (if length boids < 3 then Unknown
      else
        let alignmentLevel = calculateAlignmentLevel boids;
            cohesionLevel = calculateCohesionLevel boids;
            velocityVariance = calculateVelocityVariance boids
        in if alignmentLevel > 8 / 10 \<and> cohesionLevel > 7 / 10 \<and> velocityVariance < 3 / 10
           then Flocking
           else if cohesionLevel > 8 / 10 \<and> velocityVariance > 6 / 10 then Swarming
           else if alignmentLevel < 3 / 10 \<and> velocityVariance > 7 / 10 then Milling
           else if cohesionLevel < 4 / 10 then Splitting
           else Schooling)"

section \<open>Steering behaviours (locomotion/steering\_behaviors.hpp, steering\_behaviors.cpp)\<close>

text \<open>
  An \<^verbatim>\<open>Agent*\<close> is an index into a store of agents; \<^verbatim>\<open>neighbor == agent\<close> compares
  indices. The class hierarchy under \<^verbatim>\<open>SteeringBehavior\<close> is the datatype of its seven
  subclasses, each constructor carrying the private members of the class.
\<close>

datatype Obstacle = Obstacle (obstacle_position: Vector3D) (obstacle_radius: real)

datatype Behavior =
    SeekBehavior Vector3D
  | FleeBehavior Vector3D
  | WanderBehavior real real real Vector3D
  | SeparationBehavior real
  | AlignmentBehavior real
  | CohesionBehavior real
  | AvoidanceBehavior real "Obstacle list"

record SteeringBehavior =
  behavior :: Behavior
  weight :: real
  enabled :: bool

definition SeekBehavior_calculate ::
  "Vector3D \<Rightarrow> 'a Agent_scheme list \<Rightarrow> nat \<Rightarrow> nat list \<Rightarrow> Vector3D" where
  "SeekBehavior_calculate target store agent neighbors =
     (let desired = target - m_position (store ! agent);
          desired = scale3 (normalized desired) 10
      in desired - m_velocity (store ! agent))"

definition FleeBehavior_calculate ::
  "Vector3D \<Rightarrow> 'a Agent_scheme list \<Rightarrow> nat \<Rightarrow> nat list \<Rightarrow> Vector3D" where
  "FleeBehavior_calculate threat store agent neighbors =
     (let desired = m_position (store ! agent) - threat;
          desired = scale3 (normalized desired) 10
      in desired - m_velocity (store ! agent))"

text \<open>
  \<^verbatim>\<open>common::Random::range\<close> is declared in the header and defined elsewhere: the
  generator is a parameter \<open>range\<close> acting on a generator state. The two draws are taken
  from left to right. The result is the force, the new wander target and the generator
  state.
\<close>

definition WanderBehavior_calculate ::
  "('g \<Rightarrow> real \<Rightarrow> real \<Rightarrow> real \<times> 'g) \<Rightarrow> real \<Rightarrow> real \<Rightarrow> real \<Rightarrow> Vector3D \<Rightarrow>
   'a Agent_scheme list \<Rightarrow> nat \<Rightarrow> nat list \<Rightarrow> 'g \<Rightarrow> Vector3D \<times> Vector3D \<times> 'g" where
  "WanderBehavior_calculate Random_range wanderRadius wanderDistance wanderJitter wanderTarget
       store agent neighbors g =
     (let (r1, g) = Random_range g (- wanderJitter) wanderJitter;
          (r2, g) = Random_range g (- wanderJitter) wanderJitter;
          wanderTarget = wanderTarget + Vector3D r1 0 r2;
          wanderTarget = scale3 (normalized wanderTarget) wanderRadius;
          velocity = m_velocity (store ! agent);
          velocity = (if magnitude velocity > 1 / 10 then normalized velocity
                      else Vector3D 0 0 1);
          circleCenter = m_position (store ! agent) + scale3 velocity wanderDistance;
          target = circleCenter + wanderTarget;
          desired = target - m_position (store ! agent);
          desired = scale3 (normalized desired) 5
      in (desired - m_velocity (store ! agent), wanderTarget, g))"

definition SeparationBehavior_calculate ::
  "real \<Rightarrow> 'a Agent_scheme list \<Rightarrow> nat \<Rightarrow> nat list \<Rightarrow> Vector3D" where
  "SeparationBehavior_calculate separationRadius store agent neighbors =
     (let (steer, count) =
            fold (\<lambda>neighbor (steer, count).
                    if neighbor = agent then (steer, count)
                    else
                      let distance = magnitude (m_position (store ! agent)
                                                - m_position (store ! neighbor)) in
                      if distance > 0 \<and> distance < separationRadius then
                        let diff = m_position (store ! agent) - m_position (store ! neighbor);
                            diff = normalized diff;
                            diff = scale3 diff (1 / distance)
                        in (steer + diff, count + 1)
                      else (steer, count))
                 neighbors (Vector3D 0 0 0, 0 :: nat)
      in if count > 0 then
           let steer = scale3 steer (1 / real count);
               steer = scale3 (normalized steer) 10
           in steer - m_velocity (store ! agent)
         else steer)"

definition AlignmentBehavior_calculate ::
  "real \<Rightarrow> 'a Agent_scheme list \<Rightarrow> nat \<Rightarrow> nat list \<Rightarrow> Vector3D" where
  "AlignmentBehavior_calculate alignmentRadius store agent neighbors =
     (let (sum, count) =
            fold (\<lambda>neighbor (sum, count).
                    if neighbor = agent then (sum, count)
                    else
                      let distance = magnitude (m_position (store ! agent)
                                                - m_position (store ! neighbor)) in
                      if distance > 0 \<and> distance < alignmentRadius then
                        (sum + m_velocity (store ! neighbor), count + 1)
                      else (sum, count))
                 neighbors (Vector3D 0 0 0, 0 :: nat)
      in if count > 0 then
           let sum = scale3 sum (1 / real count);
               sum = scale3 (normalized sum) 10;
               steer = sum - m_velocity (store ! agent)
           in steer
         else Vector3D 0 0 0)"

definition CohesionBehavior_calculate ::
  "real \<Rightarrow> 'a Agent_scheme list \<Rightarrow> nat \<Rightarrow> nat list \<Rightarrow> Vector3D" where
  "CohesionBehavior_calculate cohesionRadius store agent neighbors =
     (let (sum, count) =
            fold (\<lambda>neighbor (sum, count).
                    if neighbor = agent then (sum, count)
                    else
                      let distance = magnitude (m_position (store ! agent)
                                                - m_position (store ! neighbor)) in
                      if distance > 0 \<and> distance < cohesionRadius then
                        (sum + m_position (store ! neighbor), count + 1)
                      else (sum, count))
                 neighbors (Vector3D 0 0 0, 0 :: nat)
      in if count > 0 then
           let sum = scale3 sum (1 / real count);
               desired = sum - m_position (store ! agent);
               desired = scale3 (normalized desired) 10
           in desired - m_velocity (store ! agent)
         else Vector3D 0 0 0)"

text \<open>
  \<^verbatim>\<open>AvoidanceBehavior::calculate\<close>. The quotient of the obstacle loop is taken with no
  test of \<^verbatim>\<open>distance\<close>, so it is the checked division: from the first division by zero
  on, \<^verbatim>\<open>steer\<close> is no vector of reals any more (\<open>None\<close>), and every later sum, the
  renormalisation and the subtraction keep it so.
\<close>

definition AvoidanceBehavior_calculate ::
  "real \<Rightarrow> Obstacle list \<Rightarrow> 'a Agent_scheme list \<Rightarrow> nat \<Rightarrow> nat list \<Rightarrow> Vector3D option" where
  "AvoidanceBehavior_calculate avoidanceRadius obstacles store agent neighbors =
     (let steer =
            fold (\<lambda>neighbor steer.
                    if neighbor = agent then steer
                    else
                      let distance = magnitude (m_position (store ! agent)
                                                - m_position (store ! neighbor)) in
                      if distance > 0 \<and> distance < avoidanceRadius then
                        let diff = m_position (store ! agent) - m_position (store ! neighbor);
                            diff = normalized diff;
                            diff = scale3 diff (avoidanceRadius / distance)
                        in steer + diff
                      else steer)
                 neighbors (Vector3D 0 0 0);
          steer =
            fold (\<lambda>obstacle steer.
                    let distance = magnitude (m_position (store ! agent)
                                              - obstacle_position obstacle);
                        totalRadius = obstacle_radius obstacle + 1 in
                    if distance < totalRadius + avoidanceRadius then
                      let diff = m_position (store ! agent) - obstacle_position obstacle;
                          diff = normalized diff
                      in (case (steer, fdiv (totalRadius + avoidanceRadius) distance) of
                            (Some s, Some q) \<Rightarrow> Some (s + scale3 diff q)
                          | _ \<Rightarrow> None)
                    else steer)
                 obstacles (Some steer)
      in case steer of
           None \<Rightarrow> None
         | Some steer \<Rightarrow>
             if magnitude steer > 0 then
               let steer = scale3 (normalized steer) 10
               in Some (steer - m_velocity (store ! agent))
             else Some steer)"

text \<open>
  The virtual call \<^verbatim>\<open>behavior->calculate(agent, neighbors)\<close>: the force (\<open>None\<close> when it
  is not a vector of reals), the behaviour after the call and the generator state.
\<close>

fun calculate ::
  "('g \<Rightarrow> real \<Rightarrow> real \<Rightarrow> real \<times> 'g) \<Rightarrow> 'a Agent_scheme list \<Rightarrow> nat \<Rightarrow> nat list \<Rightarrow>
   Behavior \<Rightarrow> 'g \<Rightarrow> Vector3D option \<times> Behavior \<times> 'g" where
  "calculate Random_range store agent neighbors (SeekBehavior target) g =
     (Some (SeekBehavior_calculate target store agent neighbors), SeekBehavior target, g)"
| "calculate Random_range store agent neighbors (FleeBehavior threat) g =
     (Some (FleeBehavior_calculate threat store agent neighbors), FleeBehavior threat, g)"
| "calculate Random_range store agent neighbors (WanderBehavior wr wd wj wt) g =
     (let (force, wt', g') = WanderBehavior_calculate Random_range wr wd wj wt store agent neighbors g
      in (Some force, WanderBehavior wr wd wj wt', g'))"
| "calculate Random_range store agent neighbors (SeparationBehavior r) g =
     (Some (SeparationBehavior_calculate r store agent neighbors), SeparationBehavior r, g)"
| "calculate Random_range store agent neighbors (AlignmentBehavior r) g =
     (Some (AlignmentBehavior_calculate r store agent neighbors), AlignmentBehavior r, g)"
| "calculate Random_range store agent neighbors (CohesionBehavior r) g =
     (Some (CohesionBehavior_calculate r store agent neighbors), CohesionBehavior r, g)"
| "calculate Random_range store agent neighbors (AvoidanceBehavior r obstacles) g =
     (AvoidanceBehavior_calculate r obstacles store agent neighbors,
      AvoidanceBehavior r obstacles, g)"

section \<open>Steering controller\<close>

record SteeringController =
  m_agent :: nat
  m_maxSpeed :: real
  m_maxForce :: real
  m_behaviors :: "SteeringBehavior list"

definition new_SteeringController :: "nat \<Rightarrow> SteeringController" where
  "new_SteeringController agent =
     \<lparr>m_agent = agent, m_maxSpeed = 10, m_maxForce = 5, m_behaviors = []\<rparr>"

text \<open>
  \<^verbatim>\<open>SteeringController::truncate\<close>. On the first branch the result is
  \<^verbatim>\<open>vector.normalized() * maxLength\<close>: of magnitude \<open>maxLength\<close> over the reals (for a
  non-negative \<open>maxLength\<close>), and of a magnitude that the float product can round above
  \<open>maxLength\<close> in the source.
\<close>

definition truncate :: "Vector3D \<Rightarrow> real \<Rightarrow> Vector3D" where
  "truncate vector maxLength =
     (let mag = magnitude vector in
      if mag > maxLength then scale3 (normalized vector) maxLength else vector)"

text \<open>
  The first loop of \<^verbatim>\<open>SteeringController::update\<close>: the weighted sum of the forces of
  the enabled behaviours, the behaviours after their calls and the generator state.
\<close>

definition sumForces ::
  "('g \<Rightarrow> real \<Rightarrow> real \<Rightarrow> real \<times> 'g) \<Rightarrow> 'a Agent_scheme list \<Rightarrow> nat \<Rightarrow> nat list \<Rightarrow>
   SteeringBehavior list \<Rightarrow> 'g \<Rightarrow> Vector3D option \<times> SteeringBehavior list \<times> 'g" where
  "sumForces Random_range store agent neighbors behaviors g =
     fold (\<lambda>b (totalForce, called, g).
             if enabled b then
               let (force, b', g) = calculate Random_range store agent neighbors (behavior b) g
               in ((case (totalForce, force) of
                      (Some t, Some f) \<Rightarrow> Some (t + scale3 f (weight b))
                    | _ \<Rightarrow> None),
                   called @ [b\<lparr>behavior := b'\<rparr>], g)
             else (totalForce, called @ [b], g))
          behaviors (Some (Vector3D 0 0 0), [], g)"

text \<open>The force after \<^verbatim>\<open>truncate(totalForce, maxForce_)\<close>: the one integrated.\<close>

definition steeringForce ::
  "('g \<Rightarrow> real \<Rightarrow> real \<Rightarrow> real \<times> 'g) \<Rightarrow> 'a Agent_scheme list \<Rightarrow> nat list \<Rightarrow>
   SteeringController \<Rightarrow> 'g \<Rightarrow> Vector3D option" where
  "steeringForce Random_range store neighbors c g =
     (case fst (sumForces Random_range store (m_agent c) neighbors (m_behaviors c) g) of
        None \<Rightarrow> None
      | Some totalForce \<Rightarrow> Some (truncate totalForce (m_maxForce c)))"

text \<open>
  \<^verbatim>\<open>SteeringController::update\<close>: the controller, the store of agents and the generator
  after the call; \<open>None\<close> when the force was no vector of reals, which the source
  integrates into the agent all the same.
\<close>

definition SteeringController_update ::
  "('g \<Rightarrow> real \<Rightarrow> real \<Rightarrow> real \<times> 'g) \<Rightarrow> real \<Rightarrow> nat list \<Rightarrow>
   SteeringController \<times> 'a Agent_scheme list \<times> 'g \<Rightarrow>
   (SteeringController \<times> 'a Agent_scheme list \<times> 'g) option" where
  "SteeringController_update Random_range deltaTime neighbors state =
     (let (c, store, g) = state;
          (_, behaviors, g') = sumForces Random_range store (m_agent c) neighbors (m_behaviors c) g
      in case steeringForce Random_range store neighbors c g of
           None \<Rightarrow> None
         | Some totalForce \<Rightarrow>
             let newVelocity = m_velocity (store ! m_agent c) + scale3 totalForce deltaTime;
                 newVelocity = truncate newVelocity (m_maxSpeed c);
                 store = store[m_agent c := (store ! m_agent c)\<lparr>m_velocity := newVelocity\<rparr>];
                 newPosition = m_position (store ! m_agent c) + scale3 newVelocity deltaTime;
                 store = store[m_agent c := (store ! m_agent c)\<lparr>m_position := newPosition\<rparr>]
             in Some (c\<lparr>m_behaviors := behaviors\<rparr>, store, g'))"

section \<open>Concrete states used by the examples\<close>

definition agent0 :: Agent where
  "agent0 = \<lparr>m_id = ''a'', m_position = Vector3D 0 0 0, m_velocity = Vector3D 0 0 0,
     m_health = 100, m_energy = 100, m_memory = Map.empty\<rparr>"

definition fast_boid :: Boid where
  "fast_boid = (new_Boid ''b0'' (Vector3D 0 0 0))\<lparr>m_velocity := Vector3D 10 0 0\<rparr>"

definition twin_sim :: CrowdSimulation where
  "twin_sim = addBoid (new_Boid ''b1'' (Vector3D 1 2 3))
                (addBoid (new_Boid ''b0'' (Vector3D 1 2 3)) new_CrowdSimulation)"

definition line_sim :: CrowdSimulation where
  "line_sim = addBoid (new_Boid ''b2'' (Vector3D 20 0 0))
                (addBoid (new_Boid ''b1'' (Vector3D 3 0 0))
                  (addBoid (new_Boid ''b0'' (Vector3D 0 0 0)) new_CrowdSimulation))"

definition edge_sim :: "real \<Rightarrow> CrowdSimulation" where
  "edge_sim px = addBoid (new_Boid ''b0'' (Vector3D px 0 0)) new_CrowdSimulation"

definition pair_store :: "Boid list" where
  "pair_store = [(new_Boid ''b0'' (Vector3D 0 0 0))\<lparr>m_velocity := Vector3D 1 0 0,
                                                  m_neighbors := [1]\<rparr>,
                 new_Boid ''b1'' (Vector3D 1 0 0)]"

definition burst :: "Boid list" where
  "burst = [new_Boid ''b0'' (Vector3D 0 0 0), new_Boid ''b1'' (Vector3D 1 0 0),
            new_Boid ''b2'' (Vector3D 2 0 0), new_Boid ''b3'' (Vector3D 3 0 0),
            (new_Boid ''b4'' (Vector3D 4 0 0))\<lparr>m_velocity := Vector3D 5 0 0\<rparr>]"

definition no_random :: "unit \<Rightarrow> real \<Rightarrow> real \<Rightarrow> real \<times> unit" where
  "no_random g lo hi = (lo, g)"

definition seek_controller :: SteeringController where
  "seek_controller = (new_SteeringController 0)
     \<lparr>m_behaviors := [\<lparr>behavior = SeekBehavior (Vector3D 1 0 0), weight = 1, enabled = True\<rparr>]\<rparr>"

definition chase_store :: "Boid list" where
  "chase_store = [(new_Boid ''b0'' (Vector3D 0 0 0))\<lparr>m_neighbors := [1]\<rparr>,
                  (new_Boid ''b1'' (Vector3D 3 0 0))\<lparr>m_velocity := Vector3D 3 0 0\<rparr>]"

section \<open>Vector kernel: basic facts\<close>

lemma plus_Vector3D_simp [simp]:
  "Vector3D a b c + Vector3D d e f = Vector3D (a + d) (b + e) (c + f)"
  by (simp add: plus_Vector3D_def)

lemma minus_Vector3D_simp [simp]:
  "Vector3D a b c - Vector3D d e f = Vector3D (a - d) (b - e) (c - f)"
  by (simp add: minus_Vector3D_def)

lemma scale3_simp [simp]: "scale3 (Vector3D a b c) s = Vector3D (a * s) (b * s) (c * s)"
  by (simp add: scale3_def)

lemma magnitude_nonneg: "0 \<le> magnitude v"
  by (simp add: magnitude_def)

lemma magnitude2_nonneg: "0 \<le> magnitude2 v"
  by (simp add: magnitude2_def)

lemma normalized_checked_eq: "normalized_checked v = Some (normalized v)"
  by (simp add: normalized_checked_def normalized_def fdiv_def Let_def)

lemma normalized2_checked_eq: "normalized2_checked v = Some (normalized2 v)"
  by (simp add: normalized2_checked_def normalized2_def fdiv_def Let_def)

text \<open>
  C9: a 2D or 3D vector of magnitude zero is normalised to the zero vector, no division of
  \<^verbatim>\<open>normalized()\<close> is ever by zero (so no NaN and no infinity arises), and the magnitude
  of every vector is non-negative.
\<close>

theorem C9_normalized_zero_magnitude_nonneg:
  "(magnitude v = 0 \<longrightarrow> normalized_checked v = Some (Vector3D 0 0 0) \<and> normalized v = Vector3D 0 0 0)
   \<and> (magnitude2 u = 0 \<longrightarrow> normalized2_checked u = Some (Vector2D 0 0) \<and> normalized2 u = Vector2D 0 0)
   \<and> normalized_checked v \<noteq> None \<and> normalized2_checked u \<noteq> None
   \<and> 0 \<le> magnitude v \<and> 0 \<le> magnitude2 u"
  by (simp add: normalized_checked_def normalized2_checked_def normalized_def normalized2_def
      fdiv_def Let_def magnitude_nonneg magnitude2_nonneg)

theorem C9_witness:
  "magnitude (Vector3D 0 0 0) = 0 \<and> normalized (Vector3D 0 0 0) = Vector3D 0 0 0
   \<and> normalized_checked (Vector3D 0 0 0) = Some (Vector3D 0 0 0)
   \<and> magnitude2 (Vector2D 0 0) = 0 \<and> normalized2 (Vector2D 0 0) = Vector2D 0 0
   \<and> normalized2_checked (Vector2D 0 0) = Some (Vector2D 0 0)"
  using C9_normalized_zero_magnitude_nonneg [of "Vector3D 0 0 0" "Vector2D 0 0"]
  by (simp add: magnitude_def magnitude2_def)

lemma magnitude_x_axis [simp]: "magnitude (Vector3D a 0 0) = \<bar>a\<bar>"
  by (simp add: magnitude_def)

lemma magnitude_self_diff [simp]: "magnitude (p - p) = 0"
  by (simp add: magnitude_def minus_Vector3D_def)

lemma normalized_x_axis: "a \<noteq> 0 \<Longrightarrow> normalized (Vector3D a 0 0) = Vector3D (a / \<bar>a\<bar>) 0 0"
  by (simp add: normalized_def)

lemma magnitude_zero_iff: "magnitude v = 0 \<longleftrightarrow> v = Vector3D 0 0 0"
proof (cases v)
  case (Vector3D a b c)
  have "a * a + b * b + c * c = 0 \<longleftrightarrow> a * a + b * b = 0 \<and> c * c = 0"
    by (rule add_nonneg_eq_0_iff) simp_all
  then have "a * a + b * b + c * c = 0 \<longleftrightarrow> a = 0 \<and> b = 0 \<and> c = 0"
    by (simp add: sum_squares_eq_zero_iff)
  then show ?thesis using Vector3D by (simp add: magnitude_def)
qed

lemma add_zero_Vector3D [simp]: "v + Vector3D 0 0 0 = v"
  by (cases v) simp

section \<open>Agent memory\<close>

text \<open>
  C10: \<^verbatim>\<open>getMemory<T>(key, default)\<close> returns the stored value when the key is present
  with a value of exactly type \<open>T\<close>, the default when the key is absent and when the stored
  value has another type; no exception leaves the call and the agent, its memory included,
  is the same after it.
\<close>

theorem C10_getMemory:
  "(m_memory a key = Some stored \<and> any_type stored = T \<longrightarrow>
      fst (getMemory T key d a) = Inr stored)
   \<and> (m_memory a key = None \<longrightarrow> fst (getMemory T key d a) = Inr d)
   \<and> (m_memory a key = Some stored \<and> any_type stored \<noteq> T \<longrightarrow>
      fst (getMemory T key d a) = Inr d)
   \<and> (\<forall>e. fst (getMemory T key d a) \<noteq> Inl e)
   \<and> snd (getMemory T key d a) = a"
  by (auto simp: getMemory_def any_cast_def split: option.splits exception.splits sum.splits)

theorem C10_witness:
  "fst (getMemory TFloat ''animation_time'' (AnyFloat 7)
         (setMemory ''animation_time'' (AnyFloat 2) agent0)) = Inr (AnyFloat 2)
   \<and> fst (getMemory TFloat ''chase_target'' (AnyFloat 7)
         (setMemory ''animation_time'' (AnyFloat 2) agent0)) = Inr (AnyFloat 7)
   \<and> fst (getMemory TInt ''animation_time'' (AnyInt 7)
         (setMemory ''animation_time'' (AnyFloat 2) agent0)) = Inr (AnyInt 7)"
  using
    C10_getMemory [of "setMemory ''animation_time'' (AnyFloat 2) agent0"
      "''animation_time''" "AnyFloat 2" TFloat "AnyFloat 7"]
    C10_getMemory [of "setMemory ''animation_time'' (AnyFloat 2) agent0"
      "''chase_target''" "AnyFloat 2" TFloat "AnyFloat 7"]
    C10_getMemory [of "setMemory ''animation_time'' (AnyFloat 2) agent0"
      "''animation_time''" "AnyFloat 2" TInt "AnyInt 7"]
  by (simp add: setMemory_def agent0_def)

section \<open>A boid with an empty snapshot\<close>

lemma Boid_calculateSeparation_empty:
  "m_neighbors (store ! this) = [] \<Longrightarrow> Boid_calculateSeparation store this = Vector3D 0 0 0"
  by (simp add: Boid_calculateSeparation_def Let_def)

lemma Boid_calculateAlignment_empty:
  "m_neighbors (store ! this) = [] \<Longrightarrow> Boid_calculateAlignment store this = Vector3D 0 0 0"
  by (simp add: Boid_calculateAlignment_def Let_def)

lemma Boid_calculateCohesion_empty:
  "m_neighbors (store ! this) = [] \<Longrightarrow> Boid_calculateCohesion store this = Vector3D 0 0 0"
  by (simp add: Boid_calculateCohesion_def Let_def)

lemma Boid_totalForce_empty:
  "m_neighbors (store ! this) = [] \<Longrightarrow> Boid_totalForce store this = Vector3D 0 0 0"
  by (simp add: Boid_totalForce_def Let_def Boid_calculateSeparation_empty
      Boid_calculateAlignment_empty Boid_calculateCohesion_empty)

text \<open>
  C8 as the code has it: a boid with an empty snapshot whose speed is at most the cap 8 of
  \<^verbatim>\<open>Boid::update\<close> has zero separation, alignment and cohesion forces, keeps its velocity
  and advances by velocity times \<open>deltaTime\<close>.
\<close>

theorem C8_lone_boid:
  assumes "m_neighbors (store ! this) = []"
    and "magnitude (m_velocity (store ! this)) \<le> 8"
  shows "Boid_calculateSeparation store this = Vector3D 0 0 0
    \<and> Boid_calculateAlignment store this = Vector3D 0 0 0
    \<and> Boid_calculateCohesion store this = Vector3D 0 0 0
    \<and> m_velocity (Boid_update deltaTime store this) = m_velocity (store ! this)
    \<and> m_position (Boid_update deltaTime store this)
        = m_position (store ! this) + scale3 (m_velocity (store ! this)) deltaTime"
  using assms
  by (simp add: Boid_update_def Let_def Boid_totalForce_empty Boid_calculateSeparation_empty
      Boid_calculateAlignment_empty Boid_calculateCohesion_empty)

theorem C8_witness:
  "m_velocity (Boid_update (1 / 10)
       [(new_Boid ''b0'' (Vector3D 1 2 3))\<lparr>m_velocity := Vector3D 3 0 0\<rparr>] 0) = Vector3D 3 0 0
   \<and> m_position (Boid_update (1 / 10)
       [(new_Boid ''b0'' (Vector3D 1 2 3))\<lparr>m_velocity := Vector3D 3 0 0\<rparr>] 0)
      = Vector3D (13 / 10) 2 3"
  using C8_lone_boid
    [of "[(new_Boid ''b0'' (Vector3D 1 2 3))\<lparr>m_velocity := Vector3D 3 0 0\<rparr>]" 0 "1 / 10"]
  by (simp add: new_Boid_def)

text \<open>
  Without the bound on the speed the claim fails: a lone boid of velocity \<open>(10, 0, 0)\<close> leaves
  \<^verbatim>\<open>Boid::update\<close> with velocity \<open>(8, 0, 0)\<close>, and has advanced by that.
\<close>

theorem C8_counterexample:
  "m_neighbors ([fast_boid] ! 0) = []
   \<and> m_velocity ([fast_boid] ! 0) = Vector3D 10 0 0
   \<and> m_velocity (Boid_update 1 [fast_boid] 0) = Vector3D 8 0 0
   \<and> m_position (Boid_update 1 [fast_boid] 0) = Vector3D 8 0 0"
  by (simp add: Boid_update_def Let_def Boid_totalForce_empty fast_boid_def new_Boid_def
      normalized_x_axis)

section \<open>Neighbour snapshots\<close>

lemma fold_collect_filter:
  "fold (\<lambda>x acc. if P x then acc @ [x] else acc) xs acc = acc @ filter P xs"
  by (induction xs arbitrary: acc) simp_all

lemma findNeighbors_filter:
  "findNeighbors sim boid =
     filter (\<lambda>otherBoid. otherBoid \<noteq> boid
               \<and> magnitude (m_position (m_boids sim ! boid) - m_position (m_boids sim ! otherBoid))
                  \<le> m_neighborRadius sim)
       [0..<length (m_boids sim)]"
proof -
  have body: "(\<lambda>otherBoid neighbors.
             if otherBoid \<noteq> boid then
               let distance = magnitude (m_position (m_boids sim ! boid)
                                         - m_position (m_boids sim ! otherBoid)) in
               if distance \<le> m_neighborRadius sim then neighbors @ [otherBoid] else neighbors
             else neighbors)
     = (\<lambda>otherBoid neighbors. if otherBoid \<noteq> boid
               \<and> magnitude (m_position (m_boids sim ! boid) - m_position (m_boids sim ! otherBoid))
                  \<le> m_neighborRadius sim then neighbors @ [otherBoid] else neighbors)"
    by (auto simp: fun_eq_iff Let_def)
  show ?thesis
    unfolding findNeighbors_def body by (simp add: fold_collect_filter)
qed

lemma findNeighbors_member:
  "j \<in> set (findNeighbors sim i) \<longleftrightarrow>
     j < length (m_boids sim) \<and> j \<noteq> i
     \<and> magnitude (m_position (m_boids sim ! i) - m_position (m_boids sim ! j))
        \<le> m_neighborRadius sim"
  by (auto simp: findNeighbors_filter)

lemma magnitude_diff_commute: "magnitude (p - q) = magnitude (q - p)"
proof -
  have "(a - b) * (a - b) = (b - a) * (b - a)" for a b :: real
    by (simp add: algebra_simps)
  then show ?thesis
    by (simp add: magnitude_def minus_Vector3D_def)
qed

text \<open>What a snapshot depends on: the positions, the radius and the size of the population.\<close>

lemma findNeighbors_cong:
  assumes "length (m_boids s) = length (m_boids t)"
    and "m_neighborRadius s = m_neighborRadius t"
    and "\<And>k. m_position (m_boids s ! k) = m_position (m_boids t ! k)"
  shows "findNeighbors s i = findNeighbors t i"
  using assms by (simp add: findNeighbors_filter)

lemma nth_list_update_field:
  assumes "\<And>b. f (g b) = f b"
  shows "f ((xs[i := g (xs ! i)]) ! k) = f (xs ! k)"
proof (cases "i < length xs")
  case True
  then show ?thesis using assms by (cases "k = i") simp_all
next
  case False
  then show ?thesis by (simp add: list_update_beyond)
qed

lemma setNeighborsOf_frame:
  "length (m_boids (setNeighborsOf i sim)) = length (m_boids sim)"
  "m_neighborRadius (setNeighborsOf i sim) = m_neighborRadius sim"
  "m_boundaryMin (setNeighborsOf i sim) = m_boundaryMin sim"
  "m_boundaryMax (setNeighborsOf i sim) = m_boundaryMax sim"
  "m_position (m_boids (setNeighborsOf i sim) ! k) = m_position (m_boids sim ! k)"
  "m_velocity (m_boids (setNeighborsOf i sim) ! k) = m_velocity (m_boids sim ! k)"
  by (simp_all add: setNeighborsOf_def Let_def nth_list_update_field)

lemma setNeighborsOf_neighbors:
  "m_neighbors (m_boids (setNeighborsOf i sim) ! k) =
     (if k = i \<and> i < length (m_boids sim) then findNeighbors sim i
      else m_neighbors (m_boids sim ! k))"
proof (cases "i < length (m_boids sim)")
  case True
  then show ?thesis by (simp add: setNeighborsOf_def Let_def nth_list_update)
next
  case False
  then show ?thesis by (simp add: setNeighborsOf_def Let_def list_update_beyond)
qed

lemma fold_setNeighborsOf_frame:
  "length (m_boids (fold setNeighborsOf is sim)) = length (m_boids sim)
   \<and> m_neighborRadius (fold setNeighborsOf is sim) = m_neighborRadius sim
   \<and> m_boundaryMin (fold setNeighborsOf is sim) = m_boundaryMin sim
   \<and> m_boundaryMax (fold setNeighborsOf is sim) = m_boundaryMax sim
   \<and> (\<forall>k. m_position (m_boids (fold setNeighborsOf is sim) ! k) = m_position (m_boids sim ! k))
   \<and> (\<forall>k. m_velocity (m_boids (fold setNeighborsOf is sim) ! k) = m_velocity (m_boids sim ! k))"
  by (induction "is" arbitrary: sim) (simp_all add: setNeighborsOf_frame)

lemma fold_setNeighborsOf_findNeighbors:
  "findNeighbors (fold setNeighborsOf is sim) i = findNeighbors sim i"
  by (rule findNeighbors_cong) (simp_all add: fold_setNeighborsOf_frame)

lemma fold_setNeighborsOf_neighbors:
  "m_neighbors (m_boids (fold setNeighborsOf is sim) ! k) =
     (if k \<in> set is \<and> k < length (m_boids sim) then findNeighbors sim k
      else m_neighbors (m_boids sim ! k))"
proof (induction "is" arbitrary: sim rule: rev_induct)
  case Nil
  then show ?case by simp
next
  case (snoc i "is")
  show ?case
    by (auto simp: setNeighborsOf_neighbors snoc.IH fold_setNeighborsOf_frame
        fold_setNeighborsOf_findNeighbors)
qed

lemma rebuildNeighbors_neighbors:
  "i < length (m_boids sim) \<Longrightarrow>
     m_neighbors (m_boids (rebuildNeighbors sim) ! i) = findNeighbors sim i"
  by (simp add: rebuildNeighbors_def fold_setNeighborsOf_neighbors)

lemma rebuildNeighbors_frame:
  "length (m_boids (rebuildNeighbors sim)) = length (m_boids sim)"
  "m_neighborRadius (rebuildNeighbors sim) = m_neighborRadius sim"
  "m_boundaryMin (rebuildNeighbors sim) = m_boundaryMin sim"
  "m_boundaryMax (rebuildNeighbors sim) = m_boundaryMax sim"
  "m_position (m_boids (rebuildNeighbors sim) ! k) = m_position (m_boids sim ! k)"
  "m_velocity (m_boids (rebuildNeighbors sim) ! k) = m_velocity (m_boids sim ! k)"
  by (simp_all add: rebuildNeighbors_def fold_setNeighborsOf_frame)

text \<open>
  C4 as the code has it: after the neighbour rebuild the snapshot of boid \<open>i\<close> holds boid
  \<open>j\<close> exactly when \<open>j\<close> is another boid of the population (another index) and their
  distance is at most \<^verbatim>\<open>neighborRadius_\<close>. No lower bound on the distance is tested.
\<close>

theorem C4_neighbor_rebuild:
  assumes "i < length (m_boids sim)"
  shows "j \<in> set (m_neighbors (m_boids (rebuildNeighbors sim) ! i)) \<longleftrightarrow>
     j < length (m_boids sim) \<and> j \<noteq> i
     \<and> magnitude (m_position (m_boids sim ! i) - m_position (m_boids sim ! j))
        \<le> m_neighborRadius sim"
  using assms by (simp add: rebuildNeighbors_neighbors findNeighbors_member)

lemma twin_sim_boids:
  "m_boids twin_sim = [new_Boid ''b0'' (Vector3D 1 2 3), new_Boid ''b1'' (Vector3D 1 2 3)]"
  by (simp add: twin_sim_def addBoid_def new_CrowdSimulation_def)

lemma twin_sim_radius: "m_neighborRadius twin_sim = 10"
  by (simp add: twin_sim_def addBoid_def new_CrowdSimulation_def)

text \<open>
  Two distinct boids at the same position are at distance 0, and the rebuild puts the second
  into the snapshot of the first.
\<close>

theorem C4_counterexample:
  "magnitude (m_position (m_boids twin_sim ! 0) - m_position (m_boids twin_sim ! 1)) = 0
   \<and> m_neighbors (m_boids (rebuildNeighbors twin_sim) ! 0) = [1]"
  apply (simp add: rebuildNeighbors_neighbors twin_sim_boids findNeighbors_filter twin_sim_radius)
  apply (simp add: new_Boid_def upt_rec)
  done

theorem C4_witness:
  "1 \<in> set (m_neighbors (m_boids (rebuildNeighbors twin_sim) ! 0))
   \<and> 0 \<notin> set (m_neighbors (m_boids (rebuildNeighbors twin_sim) ! 0))"
  using C4_neighbor_rebuild [of 0 twin_sim 1] C4_neighbor_rebuild [of 0 twin_sim 0]
  by (simp add: twin_sim_boids twin_sim_radius new_Boid_def)

section \<open>The movement phase of a tick\<close>

lemma Boid_update_neighbors:
  "m_neighbors (Boid_update deltaTime store this) = m_neighbors (store ! this)"
  by (simp add: Boid_update_def Let_def)

lemma applyBoundaryForces_frame:
  "m_neighbors (applyBoundaryForces sim boid) = m_neighbors boid"
  "m_position (applyBoundaryForces sim boid) = m_position boid"
  by (simp_all add: applyBoundaryForces_def Let_def)

lemma boundaryForce_cong:
  "m_boundaryMin s = m_boundaryMin t \<Longrightarrow> m_boundaryMax s = m_boundaryMax t \<Longrightarrow>
   boundaryForce s p = boundaryForce t p"
  by (simp add: boundaryForce_def)

lemma applyBoundaryForces_cong:
  "m_boundaryMin s = m_boundaryMin t \<Longrightarrow> m_boundaryMax s = m_boundaryMax t \<Longrightarrow>
   applyBoundaryForces s boid = applyBoundaryForces t boid"
  by (simp add: applyBoundaryForces_def boundaryForce_cong [of s t])

lemma moveBoid_frame:
  "length (m_boids (moveBoid deltaTime i sim)) = length (m_boids sim)"
  "m_neighborRadius (moveBoid deltaTime i sim) = m_neighborRadius sim"
  "m_boundaryMin (moveBoid deltaTime i sim) = m_boundaryMin sim"
  "m_boundaryMax (moveBoid deltaTime i sim) = m_boundaryMax sim"
  by (simp_all add: moveBoid_def Let_def)

lemma moveBoid_nth:
  "i < length (m_boids sim) \<Longrightarrow>
   m_boids (moveBoid deltaTime i sim) ! i
     = applyBoundaryForces sim (Boid_update deltaTime (m_boids sim) i)"
  by (simp add: moveBoid_def Let_def
      applyBoundaryForces_cong [of "sim\<lparr>m_boids := (m_boids sim)[i := Boid_update deltaTime (m_boids sim) i]\<rparr>" sim])

lemma moveBoid_other:
  "k \<noteq> i \<Longrightarrow> m_boids (moveBoid deltaTime i sim) ! k = m_boids sim ! k"
  by (simp add: moveBoid_def Let_def)

lemma moveBoid_neighbors:
  "m_neighbors (m_boids (moveBoid deltaTime i sim) ! k) = m_neighbors (m_boids sim ! k)"
proof (cases "k = i \<and> i < length (m_boids sim)")
  case True
  then show ?thesis
    by (simp add: moveBoid_nth applyBoundaryForces_frame Boid_update_neighbors)
next
  case False
  then show ?thesis
    by (auto simp: moveBoid_other moveBoid_def Let_def list_update_beyond)
qed

lemma fold_moveBoid_frame:
  "length (m_boids (fold (moveBoid deltaTime) is sim)) = length (m_boids sim)
   \<and> m_neighborRadius (fold (moveBoid deltaTime) is sim) = m_neighborRadius sim
   \<and> m_boundaryMin (fold (moveBoid deltaTime) is sim) = m_boundaryMin sim
   \<and> m_boundaryMax (fold (moveBoid deltaTime) is sim) = m_boundaryMax sim
   \<and> (\<forall>k. m_neighbors (m_boids (fold (moveBoid deltaTime) is sim) ! k)
          = m_neighbors (m_boids sim ! k))"
  by (induction "is" arbitrary: sim) (simp_all add: moveBoid_frame moveBoid_neighbors)

lemma fold_moveBoid_untouched:
  "k \<notin> set is \<Longrightarrow> m_boids (fold (moveBoid deltaTime) is sim) ! k = m_boids sim ! k"
  by (induction "is" arbitrary: sim) (simp_all add: moveBoid_other)

lemma upt_split_at:
  assumes "i < n"
  shows "[0..<n] = [0..<i] @ [i] @ [Suc i..<n]"
proof -
  have "[0..<n] = [0..<i] @ [i..<n]"
    using assms upt_add_eq_append [of 0 i "n - i"] by simp
  also have "[i..<n] = i # [Suc i..<n]"
    using assms by (rule upt_conv_Cons)
  finally show ?thesis by simp
qed

lemma moveBoids_nth:
  assumes "i < length (m_boids sim)"
  shows "m_boids (moveBoids deltaTime sim) ! i
     = applyBoundaryForces sim
         (Boid_update deltaTime (m_boids (fold (moveBoid deltaTime) [0..<i] sim)) i)"
proof -
  let ?n = "length (m_boids sim)"
  let ?s = "fold (moveBoid deltaTime) [0..<i] sim"
  have split: "[0..<?n] = [0..<i] @ [i] @ [Suc i..<?n]"
    using assms by (rule upt_split_at)
  have "m_boids (moveBoids deltaTime sim) ! i
      = m_boids (fold (moveBoid deltaTime) [Suc i..<?n] (moveBoid deltaTime i ?s)) ! i"
    unfolding moveBoids_def by (subst split) simp
  also have "\<dots> = m_boids (moveBoid deltaTime i ?s) ! i"
    by (rule fold_moveBoid_untouched) simp
  also have "\<dots> = applyBoundaryForces ?s (Boid_update deltaTime (m_boids ?s) i)"
    using assms by (simp add: moveBoid_nth fold_moveBoid_frame)
  also have "\<dots> = applyBoundaryForces sim (Boid_update deltaTime (m_boids ?s) i)"
    by (rule applyBoundaryForces_cong) (simp_all add: fold_moveBoid_frame)
  finally show ?thesis .
qed

lemma moveBoids_neighbors:
  "m_neighbors (m_boids (moveBoids deltaTime sim) ! k) = m_neighbors (m_boids sim ! k)"
  by (simp add: moveBoids_def fold_moveBoid_frame)

lemma CrowdSimulation_update_neighbors:
  "i < length (m_boids sim) \<Longrightarrow>
   m_neighbors (m_boids (CrowdSimulation_update deltaTime sim) ! i) = findNeighbors sim i"
  by (simp add: CrowdSimulation_update_def moveBoids_neighbors rebuildNeighbors_neighbors)

text \<open>
  C3: when the rebuild is over no boid has moved, every snapshot is the one computed from the
  positions before the tick, the movement phase leaves the snapshots as they are, and in the
  snapshots of the tick boid \<open>a\<close> is a neighbour of \<open>b\<close> exactly when \<open>b\<close> is a neighbour
  of \<open>a\<close>.
\<close>

theorem C3_snapshot_symmetric:
  assumes "a < length (m_boids sim)" and "b < length (m_boids sim)"
  shows "(\<forall>k. m_position (m_boids (rebuildNeighbors sim) ! k) = m_position (m_boids sim ! k))
    \<and> m_neighbors (m_boids (rebuildNeighbors sim) ! a) = findNeighbors sim a
    \<and> m_neighbors (m_boids (CrowdSimulation_update deltaTime sim) ! a)
        = m_neighbors (m_boids (rebuildNeighbors sim) ! a)
    \<and> (a \<in> set (m_neighbors (m_boids (CrowdSimulation_update deltaTime sim) ! b))
        \<longleftrightarrow> b \<in> set (m_neighbors (m_boids (CrowdSimulation_update deltaTime sim) ! a)))"
proof -
  have "a \<in> set (findNeighbors sim b) \<longleftrightarrow> b \<in> set (findNeighbors sim a)"
    using assms by (auto simp: findNeighbors_member magnitude_diff_commute)
  then show ?thesis
    using assms
    by (simp add: CrowdSimulation_update_neighbors rebuildNeighbors_neighbors
        rebuildNeighbors_frame)
qed

lemma line_sim_simps:
  "m_boids line_sim = [new_Boid ''b0'' (Vector3D 0 0 0), new_Boid ''b1'' (Vector3D 3 0 0),
      new_Boid ''b2'' (Vector3D 20 0 0)]"
  "m_neighborRadius line_sim = 10"
  by (simp_all add: line_sim_def addBoid_def new_CrowdSimulation_def)

theorem C3_witness:
  "m_neighbors (m_boids (CrowdSimulation_update (1 / 10) line_sim) ! 0) = [1]
   \<and> 0 \<in> set (m_neighbors (m_boids (CrowdSimulation_update (1 / 10) line_sim) ! 1))"
  using C3_snapshot_symmetric [of 0 line_sim 1 "1 / 10"]
  by (simp add: line_sim_simps findNeighbors_filter new_Boid_def upt_rec)

section \<open>Boundary containment\<close>

lemma boundaryForce_axes:
  "x3 (boundaryForce sim p) =
     (if x3 p < x3 (m_boundaryMin sim) + 5 then 20 else 0)
     - (if x3 p > x3 (m_boundaryMax sim) - 5 then 20 else 0)"
  "y3 (boundaryForce sim p) =
     (if y3 p < y3 (m_boundaryMin sim) + 5 then 20 else 0)
     - (if y3 p > y3 (m_boundaryMax sim) - 5 then 20 else 0)"
  "z3 (boundaryForce sim p) =
     (if z3 p < z3 (m_boundaryMin sim) + 5 then 20 else 0)
     - (if z3 p > z3 (m_boundaryMax sim) - 5 then 20 else 0)"
  by (simp_all add: boundaryForce_def Let_def)

lemma scale3_zero [simp]: "scale3 (Vector3D 0 0 0) s = Vector3D 0 0 0"
  by simp

lemma applyBoundaryForces_velocity:
  "m_velocity (applyBoundaryForces sim boid) =
     m_velocity boid + scale3 (boundaryForce sim (m_position boid)) (16 / 1000)"
proof (cases "magnitude (boundaryForce sim (m_position boid)) > 0")
  case True
  then show ?thesis by (simp add: applyBoundaryForces_def Let_def)
next
  case False
  then have "magnitude (boundaryForce sim (m_position boid)) = 0"
    using magnitude_nonneg [of "boundaryForce sim (m_position boid)"] by linarith
  then have "boundaryForce sim (m_position boid) = Vector3D 0 0 0"
    by (simp only: magnitude_zero_iff)
  then show ?thesis
    by (simp add: applyBoundaryForces_def Let_def)
qed

lemma CrowdSimulation_update_nth:
  assumes "i < length (m_boids sim)"
  shows "m_boids (CrowdSimulation_update deltaTime sim) ! i
     = applyBoundaryForces sim
         (Boid_update deltaTime
            (m_boids (fold (moveBoid deltaTime) [0..<i] (rebuildNeighbors sim))) i)"
proof -
  have "m_boids (CrowdSimulation_update deltaTime sim) ! i
     = applyBoundaryForces (rebuildNeighbors sim)
         (Boid_update deltaTime
            (m_boids (fold (moveBoid deltaTime) [0..<i] (rebuildNeighbors sim))) i)"
    unfolding CrowdSimulation_update_def
    using assms by (intro moveBoids_nth) (simp add: rebuildNeighbors_frame)
  also have "\<dots> = applyBoundaryForces sim
         (Boid_update deltaTime
            (m_boids (fold (moveBoid deltaTime) [0..<i] (rebuildNeighbors sim))) i)"
    by (rule applyBoundaryForces_cong) (simp_all add: rebuildNeighbors_frame)
  finally show ?thesis .
qed

lemma Boid_update_lone:
  assumes "m_neighbors (store ! this) = []"
    and "magnitude (m_velocity (store ! this)) \<le> 8"
  shows "m_velocity (Boid_update deltaTime store this) = m_velocity (store ! this)"
    and "m_position (Boid_update deltaTime store this)
        = m_position (store ! this) + scale3 (m_velocity (store ! this)) deltaTime"
  using assms by (simp_all add: Boid_update_def Let_def Boid_totalForce_empty)

text \<open>A population of one: the boid's snapshot is empty when it moves.\<close>

lemma single_boid_tick:
  assumes "length (m_boids sim) = 1"
  shows "m_boids (CrowdSimulation_update deltaTime sim) ! 0
     = applyBoundaryForces sim (Boid_update deltaTime (m_boids (rebuildNeighbors sim)) 0)"
    and "m_neighbors (m_boids (rebuildNeighbors sim) ! 0) = []"
proof -
  show "m_boids (CrowdSimulation_update deltaTime sim) ! 0
     = applyBoundaryForces sim (Boid_update deltaTime (m_boids (rebuildNeighbors sim)) 0)"
    using assms CrowdSimulation_update_nth [of 0 sim deltaTime] by simp
  show "m_neighbors (m_boids (rebuildNeighbors sim) ! 0) = []"
    using assms by (simp add: rebuildNeighbors_neighbors findNeighbors_filter)
qed

text \<open>
  C2 as the code has it. On each axis the boundary force gets \<open>+20\<close> when the position is
  strictly below the minimum boundary plus 5 and \<open>-20\<close> when it is strictly above the maximum
  boundary minus 5. In a tick, containment acts on each boid as its own \<^verbatim>\<open>Boid::update\<close>
  left it: the position stays, and the velocity gains the boundary force at that position
  times the constant 0.016, in which \<open>deltaTime\<close> does not occur. A single boid of zero
  velocity ends the tick, whatever \<open>deltaTime\<close>, with the boundary force at its position
  times 0.016 as its velocity.
\<close>

theorem C2_boundary_containment:
  assumes "i < length (m_boids sim)"
  shows "(\<forall>p. x3 (boundaryForce sim p) =
            (if x3 p < x3 (m_boundaryMin sim) + 5 then 20 else 0)
            - (if x3 p > x3 (m_boundaryMax sim) - 5 then 20 else 0))
    \<and> (\<forall>p. y3 (boundaryForce sim p) =
            (if y3 p < y3 (m_boundaryMin sim) + 5 then 20 else 0)
            - (if y3 p > y3 (m_boundaryMax sim) - 5 then 20 else 0))
    \<and> (\<forall>p. z3 (boundaryForce sim p) =
            (if z3 p < z3 (m_boundaryMin sim) + 5 then 20 else 0)
            - (if z3 p > z3 (m_boundaryMax sim) - 5 then 20 else 0))
    \<and> (let moved = Boid_update deltaTime
                      (m_boids (fold (moveBoid deltaTime) [0..<i] (rebuildNeighbors sim))) i;
            after = m_boids (CrowdSimulation_update deltaTime sim) ! i
        in after = applyBoundaryForces sim moved
           \<and> m_position after = m_position moved
           \<and> m_velocity after
               = m_velocity moved + scale3 (boundaryForce sim (m_position moved)) (16 / 1000))
    \<and> (length (m_boids sim) = 1 \<and> m_velocity (m_boids sim ! 0) = Vector3D 0 0 0 \<longrightarrow>
          m_velocity (m_boids (CrowdSimulation_update deltaTime sim) ! 0)
            = scale3 (boundaryForce sim (m_position (m_boids sim ! 0))) (16 / 1000))"
proof -
  have lone: "m_velocity (m_boids (CrowdSimulation_update deltaTime sim) ! 0)
            = scale3 (boundaryForce sim (m_position (m_boids sim ! 0))) (16 / 1000)"
    if one: "length (m_boids sim) = 1" and still: "m_velocity (m_boids sim ! 0) = Vector3D 0 0 0"
  proof -
    let ?store = "m_boids (rebuildNeighbors sim)"
    have v: "m_velocity (?store ! 0) = Vector3D 0 0 0"
      using still by (simp add: rebuildNeighbors_frame)
    have "m_velocity (Boid_update deltaTime ?store 0) = Vector3D 0 0 0"
      and "m_position (Boid_update deltaTime ?store 0) = m_position (m_boids sim ! 0)"
      using Boid_update_lone [OF single_boid_tick(2) [OF one], of deltaTime] v
      by (simp_all add: rebuildNeighbors_frame)
    then show ?thesis
      by (cases "boundaryForce sim (m_position (m_boids sim ! 0))")
        (simp add: single_boid_tick(1) [OF one] applyBoundaryForces_velocity)
  qed
  show ?thesis
    using assms lone
    by (simp add: boundaryForce_axes Let_def CrowdSimulation_update_nth
        applyBoundaryForces_frame applyBoundaryForces_velocity)
qed

lemma edge_sim_simps:
  "m_boids (edge_sim px) = [new_Boid ''b0'' (Vector3D px 0 0)]"
  "m_boundaryMin (edge_sim px) = Vector3D (- 50) (- 50) (- 50)"
  "m_boundaryMax (edge_sim px) = Vector3D 50 50 50"
  by (simp_all add: edge_sim_def addBoid_def new_CrowdSimulation_def)

lemma edge_sim_tick:
  "m_velocity (m_boids (CrowdSimulation_update deltaTime (edge_sim px)) ! 0)
     = scale3 (boundaryForce (edge_sim px) (Vector3D px 0 0)) (16 / 1000)"
proof -
  let ?store = "m_boids (rebuildNeighbors (edge_sim px))"
  have one: "length (m_boids (edge_sim px)) = 1"
    by (simp add: edge_sim_simps)
  have v: "m_velocity (?store ! 0) = Vector3D 0 0 0"
    by (simp add: rebuildNeighbors_frame edge_sim_simps new_Boid_def)
  have "m_velocity (Boid_update deltaTime ?store 0) = Vector3D 0 0 0"
    and "m_position (Boid_update deltaTime ?store 0) = Vector3D px 0 0"
    using Boid_update_lone [OF single_boid_tick(2) [OF one], of deltaTime] v
    by (simp_all add: rebuildNeighbors_frame edge_sim_simps new_Boid_def)
  then show ?thesis
    by (cases "boundaryForce (edge_sim px) (Vector3D px 0 0)")
      (simp add: single_boid_tick(1) [OF one] applyBoundaryForces_velocity)
qed

text \<open>
  A single boid at exactly the minimum boundary plus the margin on the x axis, at rest: the
  test \<^verbatim>\<open>position.x < boundaryMin_.x + margin\<close> is strict, so after one tick with
  \<open>deltaTime = 0.1\<close> its velocity is still zero.
\<close>

theorem C2_counterexample:
  "x3 (m_position (m_boids (edge_sim (- 45)) ! 0)) = x3 (m_boundaryMin (edge_sim (- 45))) + 5
   \<and> m_velocity (m_boids (edge_sim (- 45)) ! 0) = Vector3D 0 0 0
   \<and> m_velocity (m_boids (CrowdSimulation_update (1 / 10) (edge_sim (- 45))) ! 0)
       = Vector3D 0 0 0"
  by (simp add: edge_sim_tick) (simp add: edge_sim_simps new_Boid_def boundaryForce_def)

theorem C2_witness:
  "m_velocity (m_boids (CrowdSimulation_update (1 / 10) (edge_sim (- 46))) ! 0)
       = Vector3D (8 / 25) 0 0
   \<and> m_velocity (m_boids (CrowdSimulation_update 3 (edge_sim (- 46))) ! 0)
       = Vector3D (8 / 25) 0 0"
  using C2_boundary_containment [of 0 "edge_sim (- 46)" "1 / 10"]
    C2_boundary_containment [of 0 "edge_sim (- 46)" 3]
  by (simp add: edge_sim_simps new_Boid_def boundaryForce_def)

section \<open>The two separation functions\<close>

text \<open>A loop that sums the contributions of the qualifying neighbours and counts them.\<close>

lemma fold_sum_count:
  "fold (\<lambda>n (s, c). if P n then (s + f n, c + 1) else (s, c)) ns (s0, c0 :: nat)
     = (fold (\<lambda>n s. if P n then s + f n else s) ns s0, c0 + length (filter P ns))"
  by (induction ns arbitrary: s0 c0) simp_all

lemma fold_sum_none:
  "filter P ns = [] \<Longrightarrow> fold (\<lambda>n s. if P n then s + f n else s) ns s0 = s0"
  by (induction ns arbitrary: s0) (simp_all split: if_splits)

lemma Boid_separation_loop:
  "fold (\<lambda>neighbor (steer, count).
            let distance = magnitude (m_position self - m_position (store ! neighbor)) in
            if distance > 0 \<and> distance < r then
              let diff = m_position self - m_position (store ! neighbor);
                  diff = normalized diff;
                  diff = scale3 diff (1 / distance)
              in (steer + diff, count + 1)
            else (steer, count)) ns (s0, c0 :: nat)
   = (fold (\<lambda>n s. if 0 < magnitude (m_position self - m_position (store ! n))
                       \<and> magnitude (m_position self - m_position (store ! n)) < r
                    then s + scale3 (normalized (m_position self - m_position (store ! n)))
                               (1 / magnitude (m_position self - m_position (store ! n)))
                    else s) ns s0,
      c0 + length (filter (\<lambda>n. 0 < magnitude (m_position self - m_position (store ! n))
                       \<and> magnitude (m_position self - m_position (store ! n)) < r) ns))"
  unfolding Let_def by (rule fold_sum_count)

lemma Controller_separation_loop:
  "fold (\<lambda>neighbor (steer, count).
            if neighbor = agent then (steer, count)
            else
              let distance = magnitude (m_position (store ! agent)
                                        - m_position (store ! neighbor)) in
              if distance > 0 \<and> distance < r then
                let diff = m_position (store ! agent) - m_position (store ! neighbor);
                    diff = normalized diff;
                    diff = scale3 diff (1 / distance)
                in (steer + diff, count + 1)
              else (steer, count)) ns (s0, c0 :: nat)
   = (fold (\<lambda>n s. if 0 < magnitude (m_position (store ! agent) - m_position (store ! n))
                       \<and> magnitude (m_position (store ! agent) - m_position (store ! n)) < r
                    then s + scale3 (normalized (m_position (store ! agent) - m_position (store ! n)))
                               (1 / magnitude (m_position (store ! agent) - m_position (store ! n)))
                    else s) ns s0,
      c0 + length (filter (\<lambda>n. 0 < magnitude (m_position (store ! agent) - m_position (store ! n))
                       \<and> magnitude (m_position (store ! agent) - m_position (store ! n)) < r) ns))"
proof -
  have "(\<lambda>neighbor (steer, count :: nat).
            if neighbor = agent then (steer, count)
            else
              let distance = magnitude (m_position (store ! agent)
                                        - m_position (store ! neighbor)) in
              if distance > 0 \<and> distance < r then
                let diff = m_position (store ! agent) - m_position (store ! neighbor);
                    diff = normalized diff;
                    diff = scale3 diff (1 / distance)
                in (steer + diff, count + 1)
              else (steer, count))
     = (\<lambda>n (s, c). if 0 < magnitude (m_position (store ! agent) - m_position (store ! n))
                       \<and> magnitude (m_position (store ! agent) - m_position (store ! n)) < r
                    then (s + scale3 (normalized (m_position (store ! agent) - m_position (store ! n)))
                               (1 / magnitude (m_position (store ! agent) - m_position (store ! n))), c + 1)
                    else (s, c))"
    by (auto simp: fun_eq_iff Let_def)
  then show ?thesis
    by (simp only: fold_sum_count)
qed

text \<open>
  C7: on the same agent, radius and neighbour list, when some neighbour lies at a distance
  \<open>d\<close> with \<open>0 < d < radius\<close> the controller's \<^verbatim>\<open>SeparationBehavior::calculate\<close> returns
  the vector of \<^verbatim>\<open>Boid::calculateSeparation\<close> minus the agent's velocity; when none does,
  both return the zero vector.
\<close>

theorem C7_separation_variants:
  fixes store :: "Boid list"
  shows
  "((\<exists>n \<in> set (m_neighbors (store ! this)).
        0 < magnitude (m_position (store ! this) - m_position (store ! n))
        \<and> magnitude (m_position (store ! this) - m_position (store ! n))
            < m_separationRadius (store ! this)) \<longrightarrow>
      SeparationBehavior_calculate (m_separationRadius (store ! this)) store this
          (m_neighbors (store ! this))
        = Boid_calculateSeparation store this - m_velocity (store ! this))
   \<and> (\<not> (\<exists>n \<in> set (m_neighbors (store ! this)).
        0 < magnitude (m_position (store ! this) - m_position (store ! n))
        \<and> magnitude (m_position (store ! this) - m_position (store ! n))
            < m_separationRadius (store ! this)) \<longrightarrow>
      SeparationBehavior_calculate (m_separationRadius (store ! this)) store this
          (m_neighbors (store ! this)) = Vector3D 0 0 0
      \<and> Boid_calculateSeparation store this = Vector3D 0 0 0)"
proof -
  let ?P = "\<lambda>n. 0 < magnitude (m_position (store ! this) - m_position (store ! n))
        \<and> magnitude (m_position (store ! this) - m_position (store ! n))
            < m_separationRadius (store ! this)"
  have ex: "(\<exists>n \<in> set (m_neighbors (store ! this)). ?P n)
      \<longleftrightarrow> filter ?P (m_neighbors (store ! this)) \<noteq> []"
    by (simp add: filter_empty_conv)
  show ?thesis
  proof (cases "filter ?P (m_neighbors (store ! this)) = []")
    case True
    then show ?thesis
      unfolding ex SeparationBehavior_calculate_def Boid_calculateSeparation_def
        Boid_separation_loop Controller_separation_loop
      by (simp add: Let_def fold_sum_none)
  next
    case False
    then show ?thesis
      unfolding ex SeparationBehavior_calculate_def Boid_calculateSeparation_def
        Boid_separation_loop Controller_separation_loop
      by (simp add: Let_def)
  qed
qed

theorem C7_witness:
  "SeparationBehavior_calculate 2 pair_store 0 [1] = Vector3D (- 11) 0 0
   \<and> Boid_calculateSeparation pair_store 0 = Vector3D (- 10) 0 0
   \<and> SeparationBehavior_calculate 2 [new_Boid ''b0'' (Vector3D 0 0 0)] 0 [] = Vector3D 0 0 0
   \<and> Boid_calculateSeparation [new_Boid ''b0'' (Vector3D 0 0 0)] 0 = Vector3D 0 0 0"
proof -
  have B: "Boid_calculateSeparation pair_store 0 = Vector3D (- 10) 0 0"
    by (simp add: Boid_calculateSeparation_def pair_store_def new_Boid_def Let_def
        normalized_x_axis)
  show ?thesis
    using C7_separation_variants [of pair_store 0]
      C7_separation_variants [of "[new_Boid ''b0'' (Vector3D 0 0 0)]" 0]
    by (simp add: B) (simp add: pair_store_def new_Boid_def)
qed

section \<open>Avoidance\<close>

lemma fold_option_None:
  assumes "\<And>x s. step x s = None \<longleftrightarrow> s = None \<or> bad x"
  shows "fold step xs init = None \<longleftrightarrow> init = None \<or> (\<exists>x \<in> set xs. bad x)"
  by (induction xs arbitrary: init) (auto simp: assms)

text \<open>
  The obstacle loop of \<^verbatim>\<open>AvoidanceBehavior::calculate\<close> ends without a vector of reals
  exactly when it started without one or met an obstacle in range at distance zero.
\<close>

lemma obstacle_loop_None:
  "fold (\<lambda>obstacle steer.
            let distance = magnitude (p - obstacle_position obstacle);
                totalRadius = obstacle_radius obstacle + 1 in
            if distance < totalRadius + r then
              let diff = p - obstacle_position obstacle;
                  diff = normalized diff
              in (case (steer, fdiv (totalRadius + r) distance) of
                    (Some s, Some q) \<Rightarrow> Some (s + scale3 diff q)
                  | _ \<Rightarrow> None)
            else steer) obstacles init = None
   \<longleftrightarrow> init = None
       \<or> (\<exists>obstacle \<in> set obstacles.
             magnitude (p - obstacle_position obstacle) = 0
             \<and> 0 < obstacle_radius obstacle + 1 + r)"
proof (rule fold_option_None)
  fix obstacle and steer :: "Vector3D option"
  show "(let distance = magnitude (p - obstacle_position obstacle);
                totalRadius = obstacle_radius obstacle + 1 in
            if distance < totalRadius + r then
              let diff = p - obstacle_position obstacle;
                  diff = normalized diff
              in (case (steer, fdiv (totalRadius + r) distance) of
                    (Some s, Some q) \<Rightarrow> Some (s + scale3 diff q)
                  | _ \<Rightarrow> None)
            else steer) = None
     \<longleftrightarrow> steer = None
         \<or> magnitude (p - obstacle_position obstacle) = 0
           \<and> 0 < obstacle_radius obstacle + 1 + r"
    by (cases steer) (auto simp: Let_def fdiv_def)
qed

lemma AvoidanceBehavior_calculate_None_iff:
  "AvoidanceBehavior_calculate r obstacles store agent neighbors = None
   \<longleftrightarrow> (\<exists>obstacle \<in> set obstacles.
         magnitude (m_position (store ! agent) - obstacle_position obstacle) = 0
         \<and> 0 < obstacle_radius obstacle + 1 + r)"
proof -
  have "AvoidanceBehavior_calculate r obstacles store agent neighbors = None
     \<longleftrightarrow> fold (\<lambda>obstacle steer.
            let distance = magnitude (m_position (store ! agent) - obstacle_position obstacle);
                totalRadius = obstacle_radius obstacle + 1 in
            if distance < totalRadius + r then
              let diff = m_position (store ! agent) - obstacle_position obstacle;
                  diff = normalized diff
              in (case (steer, fdiv (totalRadius + r) distance) of
                    (Some s, Some q) \<Rightarrow> Some (s + scale3 diff q)
                  | _ \<Rightarrow> None)
            else steer) obstacles
          (Some (fold (\<lambda>neighbor steer.
                    if neighbor = agent then steer
                    else
                      let distance = magnitude (m_position (store ! agent)
                                                - m_position (store ! neighbor)) in
                      if distance > 0 \<and> distance < r then
                        let diff = m_position (store ! agent) - m_position (store ! neighbor);
                            diff = normalized diff;
                            diff = scale3 diff (r / distance)
                        in steer + diff
                      else steer)
                 neighbors (Vector3D 0 0 0))) = None"
    unfolding AvoidanceBehavior_calculate_def
    by (subst Let_def, subst Let_def) (simp split: option.splits)
  then show ?thesis
    by (simp only: obstacle_loop_None) simp
qed

text \<open>
  C6 at an agent standing on an obstacle: with the default avoidance radius 4, an agent at the
  origin and an obstacle of radius 1 registered at the origin, the quotient
  \<^verbatim>\<open>(totalRadius + avoidanceRadius_) / distance\<close> is \<open>6 / 0\<close> and the force is no vector of
  reals (in IEEE arithmetic: the zero vector times infinity, NaN in every component).
\<close>

theorem C6_avoidance_at_obstacle:
  "m_position ([agent0] ! 0) = obstacle_position (Obstacle (Vector3D 0 0 0) 1)
   \<and> AvoidanceBehavior_calculate 4 [Obstacle (Vector3D 0 0 0) 1] [agent0] 0 [] = None"
  by (simp add: AvoidanceBehavior_calculate_def agent0_def Let_def fdiv_def)

section \<open>Normalised vectors\<close>

lemma magnitude_square: "magnitude v * magnitude v = x3 v * x3 v + y3 v * y3 v + z3 v * z3 v"
  by (simp add: magnitude_def)

lemma magnitude_normalized:
  assumes "magnitude v > 0"
  shows "magnitude (normalized v) = 1"
proof -
  let ?m = "magnitude v"
  have "x3 v / ?m * (x3 v / ?m) + y3 v / ?m * (y3 v / ?m) + z3 v / ?m * (z3 v / ?m)
      = (x3 v * x3 v + y3 v * y3 v + z3 v * z3 v) / (?m * ?m)"
    by (simp add: add_divide_distrib)
  also have "\<dots> = 1"
    using assms by (simp add: magnitude_square [symmetric])
  finally show ?thesis
    using assms by (simp add: normalized_def Let_def magnitude_def)
qed

lemma magnitude_normalized_le: "magnitude (normalized v) \<le> 1"
proof (cases "magnitude v > 0")
  case True
  then show ?thesis by (simp add: magnitude_normalized)
next
  case False
  then show ?thesis by (simp add: normalized_def Let_def magnitude_def)
qed

text \<open>The Cauchy-Schwarz inequality in three dimensions, through Lagrange's identity.\<close>

lemma dot_le_magnitudes: "\<bar>dot a b\<bar> \<le> magnitude a * magnitude b"
proof -
  obtain a1 a2 a3 where a: "a = Vector3D a1 a2 a3" by (cases a)
  obtain b1 b2 b3 where b: "b = Vector3D b1 b2 b3" by (cases b)
  have "(a1 * a1 + a2 * a2 + a3 * a3) * (b1 * b1 + b2 * b2 + b3 * b3)
      = (a1 * b1 + a2 * b2 + a3 * b3)\<^sup>2
        + ((a2 * b3 - a3 * b2)\<^sup>2 + (a3 * b1 - a1 * b3)\<^sup>2 + (a1 * b2 - a2 * b1)\<^sup>2)"
    by (simp add: power2_eq_square algebra_simps)
  then have "(a1 * b1 + a2 * b2 + a3 * b3)\<^sup>2
      \<le> (a1 * a1 + a2 * a2 + a3 * a3) * (b1 * b1 + b2 * b2 + b3 * b3)"
    by simp
  then have "sqrt ((a1 * b1 + a2 * b2 + a3 * b3)\<^sup>2)
      \<le> sqrt ((a1 * a1 + a2 * a2 + a3 * a3) * (b1 * b1 + b2 * b2 + b3 * b3))"
    by (simp only: real_sqrt_le_iff)
  then show ?thesis
    by (simp add: a b dot_def magnitude_def real_sqrt_mult)
qed

lemma dot_normalized_lower: "- 1 \<le> dot (normalized u) (normalized v)"
proof -
  have "magnitude (normalized u) * magnitude (normalized v) \<le> 1 * 1"
    by (intro mult_mono magnitude_normalized_le magnitude_nonneg) simp
  then have "\<bar>dot (normalized u) (normalized v)\<bar> \<le> 1"
    using dot_le_magnitudes [of "normalized u" "normalized v"] by linarith
  then show ?thesis
    by linarith
qed

section \<open>The three metrics of the detector\<close>

lemma fold_nonneg_terms:
  assumes "\<And>b. 0 \<le> h b"
  shows "t0 \<le> fold (\<lambda>b t. if Q b then t + h b else t) bs (t0 :: real)"
proof (induction bs arbitrary: t0)
  case Nil
  then show ?case by simp
next
  case (Cons b bs)
  show ?case
    using Cons.IH [of "t0 + h b"] Cons.IH [of t0] assms [of b] by auto
qed

lemma fold_add_nonneg:
  assumes "\<And>b. 0 \<le> h b"
  shows "d0 \<le> fold (\<lambda>b d. d + h b) bs (d0 :: real)"
proof (induction bs arbitrary: d0)
  case Nil
  then show ?case by simp
next
  case (Cons b bs)
  show ?case
    using Cons.IH [of "d0 + h b"] assms [of b] by simp
qed

lemma calculateAlignmentLevel_nonneg: "0 \<le> calculateAlignmentLevel boids"
proof -
  let ?avg = "scale3 (fold (\<lambda>boid avg. avg + m_velocity boid) boids (Vector3D 0 0 0))
                (1 / real (length boids))"
  let ?total = "fold (\<lambda>boid total.
       if magnitude (m_velocity boid) > 0 \<and> magnitude ?avg > 0
       then total + (dot (normalized (m_velocity boid)) (normalized ?avg) + 1) / 2
       else total) boids 0"
  have level: "calculateAlignmentLevel boids
      = (if boids = [] then 0 else ?total / real (length boids))"
    unfolding calculateAlignmentLevel_def Let_def by simp
  have "0 \<le> (dot (normalized w) (normalized ?avg) + 1) / 2" for w
    using dot_normalized_lower [of w ?avg] by simp
  then have "0 \<le> ?total"
    by (intro fold_nonneg_terms
        [of "\<lambda>boid. (dot (normalized (m_velocity boid)) (normalized ?avg) + 1) / 2"]) simp
  then show ?thesis
    by (simp add: level)
qed

lemma calculateCohesionLevel_bounds:
  "0 \<le> calculateCohesionLevel boids" "calculateCohesionLevel boids \<le> 1"
proof -
  let ?center = "scale3 (fold (\<lambda>boid c. c + m_position boid) boids (Vector3D 0 0 0))
                   (1 / real (length boids))"
  let ?sum = "fold (\<lambda>boid d. d + magnitude (m_position boid - ?center)) boids 0"
  have level: "calculateCohesionLevel boids
      = (if boids = [] then 0 else 1 / (1 + ?sum / real (length boids) * (1 / 10)))"
    by (simp add: calculateCohesionLevel_def Let_def)
  have "0 \<le> ?sum"
    by (rule fold_add_nonneg) (rule magnitude_nonneg)
  then have "0 \<le> ?sum / real (length boids) * (1 / 10)"
    by simp
  then show "0 \<le> calculateCohesionLevel boids" "calculateCohesionLevel boids \<le> 1"
    unfolding level by (simp_all add: add_nonneg_nonneg)
qed

lemma calculateVelocityVariance_nonneg: "0 \<le> calculateVelocityVariance boids"
proof (cases "boids = []")
  case True
  then show ?thesis by (simp add: calculateVelocityVariance_def)
next
  case False
  let ?avg = "fold (\<lambda>boid s. s + magnitude (m_velocity boid)) boids 0 / real (length boids)"
  let ?var = "fold (\<lambda>boid var. var + (magnitude (m_velocity boid) - ?avg)
                                      * (magnitude (m_velocity boid) - ?avg)) boids 0"
  have level: "calculateVelocityVariance boids
      = sqrt (?var / real (length boids)) / (?avg + 1 / 10)"
    using False by (simp add: calculateVelocityVariance_def Let_def)
  have "0 \<le> fold (\<lambda>boid s. s + magnitude (m_velocity boid)) boids 0"
    by (rule fold_add_nonneg) (rule magnitude_nonneg)
  then have avg: "0 \<le> ?avg"
    by simp
  have var: "0 \<le> ?var"
    by (rule fold_add_nonneg) simp
  show ?thesis
    unfolding level using avg var by (intro divide_nonneg_nonneg) simp_all
qed

text \<open>
  C5 as the code has it: for a population of at least three boids the cohesion level lies in
  \<open>[0, 1]\<close>, and the alignment level and the normalised velocity variance are non-negative.
  The code puts no upper bound on the variance. No upper bound is stated for the alignment
  level: each of its terms is \<open>(d + 1) / 2\<close> for the dot product \<open>d\<close> of two vectors
  returned by \<^verbatim>\<open>normalized()\<close>, and that \<open>d\<close> is at most 1 needs those vectors to have
  length exactly 1, which float division does not give.
\<close>

theorem C5_metric_ranges:
  assumes "3 \<le> length boids"
  shows "0 \<le> calculateAlignmentLevel boids
    \<and> 0 \<le> calculateCohesionLevel boids \<and> calculateCohesionLevel boids \<le> 1
    \<and> 0 \<le> calculateVelocityVariance boids"
  by (simp add: calculateAlignmentLevel_nonneg calculateCohesionLevel_bounds
      calculateVelocityVariance_nonneg)

text \<open>
  Five boids, four at rest and one of speed 5: the mean speed is 1, the variance 4, and the
  normalised velocity variance is \<open>2 / 1.1\<close>, above 1.
\<close>

theorem C5_counterexample:
  "3 \<le> length burst \<and> calculateVelocityVariance burst = 20 / 11
   \<and> \<not> calculateVelocityVariance burst \<le> 1"
  by (simp add: calculateVelocityVariance_def burst_def new_Boid_def Let_def)

theorem C5_witness:
  "0 \<le> calculateAlignmentLevel burst
    \<and> 0 \<le> calculateCohesionLevel burst \<and> calculateCohesionLevel burst \<le> 1
    \<and> 0 \<le> calculateVelocityVariance burst"
  using C5_metric_ranges [of burst] by (simp add: burst_def)

section \<open>Speed and force caps\<close>

text \<open>
  \<^verbatim>\<open>truncate\<close> by cases: the vector itself, on the branch where the code's own comparison
  bounds its magnitude by the cap, or the normalised vector times the cap.
\<close>

lemma truncate_cases:
  "truncate v cap = v \<and> magnitude (truncate v cap) \<le> cap
   \<or> truncate v cap = scale3 (normalized v) cap \<and> magnitude v > cap"
  by (simp add: truncate_def Let_def not_less)

lemma steeringForce_Some:
  assumes "steeringForce Random_range store neighbors c g = Some F"
  shows "\<exists>T. fst (sumForces Random_range store (m_agent c) neighbors (m_behaviors c) g) = Some T
      \<and> F = truncate T (m_maxForce c)"
  using assms by (auto simp: steeringForce_def split: option.splits)

lemma SteeringController_update_Some:
  assumes "SteeringController_update Random_range deltaTime neighbors (c, store, g)
      = Some (c', store', g')"
    and "m_agent c < length store"
  shows "\<exists>F. steeringForce Random_range store neighbors c g = Some F
      \<and> m_velocity (store' ! m_agent c')
          = truncate (m_velocity (store ! m_agent c) + scale3 F deltaTime) (m_maxSpeed c')
      \<and> m_position (store' ! m_agent c')
          = m_position (store ! m_agent c) + scale3 (m_velocity (store' ! m_agent c')) deltaTime
      \<and> m_maxSpeed c' = m_maxSpeed c \<and> m_maxForce c' = m_maxForce c \<and> m_agent c' = m_agent c"
  using assms
  by (auto simp: SteeringController_update_def Let_def split: prod.splits option.splits)

lemma Boid_update_velocity:
  "m_velocity (Boid_update deltaTime boids this)
     = (if magnitude (m_velocity (boids ! this) + scale3 (Boid_totalForce boids this) deltaTime) > 8
        then scale3 (normalized (m_velocity (boids ! this)
                                 + scale3 (Boid_totalForce boids this) deltaTime)) 8
        else m_velocity (boids ! this) + scale3 (Boid_totalForce boids this) deltaTime)"
  by (simp add: Boid_update_def Let_def)

text \<open>
  C1 as the code has it. In a call of \<^verbatim>\<open>SteeringController::update\<close> whose composed force
  \<open>T\<close> is a vector of numbers, \<^verbatim>\<open>maxSpeed_\<close> is unchanged; the force \<open>F\<close> that is integrated
  is \<open>T\<close> itself, of magnitude at most \<^verbatim>\<open>maxForce_\<close>, or, when the magnitude of \<open>T\<close> is above
  \<^verbatim>\<open>maxForce_\<close>, the normalised \<open>T\<close> times \<^verbatim>\<open>maxForce_\<close>; and the velocity after the call is
  \<open>u = velocity + F * deltaTime\<close> itself, of magnitude at most \<^verbatim>\<open>maxSpeed_\<close>, or, when the
  magnitude of \<open>u\<close> is above \<^verbatim>\<open>maxSpeed_\<close>, the normalised \<open>u\<close> times \<^verbatim>\<open>maxSpeed_\<close>. A call
  of \<^verbatim>\<open>Boid::update\<close> integrates the weighted sum of separation, alignment and cohesion as
  it is, with no cap on the force, and treats the velocity in the same two cases with the
  fixed cap 8. The magnitude of a normalised vector times the cap is not part of the
  statement: it is the cap over the reals, and the float product can round above it.
\<close>

theorem C1_speed_and_force_caps:
  assumes "SteeringController_update Random_range deltaTime neighbors (c, store, g)
      = Some (c', store', g')"
    and "m_agent c < length store"
  shows "(\<exists>T F.
      fst (sumForces Random_range store (m_agent c) neighbors (m_behaviors c) g) = Some T
      \<and> steeringForce Random_range store neighbors c g = Some F
      \<and> (F = T \<and> magnitude F \<le> m_maxForce c
          \<or> F = scale3 (normalized T) (m_maxForce c) \<and> magnitude T > m_maxForce c)
      \<and> m_maxSpeed c' = m_maxSpeed c
      \<and> (let u = m_velocity (store ! m_agent c) + scale3 F deltaTime;
              v = m_velocity (store' ! m_agent c')
          in v = u \<and> magnitude v \<le> m_maxSpeed c'
             \<or> v = scale3 (normalized u) (m_maxSpeed c') \<and> magnitude u > m_maxSpeed c'))
    \<and> Boid_totalForce boids this
        = scale3 (Boid_calculateSeparation boids this) (m_separationWeight (boids ! this))
          + scale3 (Boid_calculateAlignment boids this) (m_alignmentWeight (boids ! this))
          + scale3 (Boid_calculateCohesion boids this) (m_cohesionWeight (boids ! this))
    \<and> (let u = m_velocity (boids ! this) + scale3 (Boid_totalForce boids this) deltaTime;
            v = m_velocity (Boid_update deltaTime boids this)
        in v = u \<and> magnitude v \<le> 8
           \<or> v = scale3 (normalized u) 8 \<and> magnitude u > 8)"
proof -
  from SteeringController_update_Some [OF assms] obtain F where
    F: "steeringForce Random_range store neighbors c g = Some F"
    and v: "m_velocity (store' ! m_agent c')
          = truncate (m_velocity (store ! m_agent c) + scale3 F deltaTime) (m_maxSpeed c')"
    and speed: "m_maxSpeed c' = m_maxSpeed c"
    by blast
  from steeringForce_Some [OF F] obtain T where
    T: "fst (sumForces Random_range store (m_agent c) neighbors (m_behaviors c) g) = Some T"
    and FT: "F = truncate T (m_maxForce c)"
    by blast
  have force: "F = T \<and> magnitude F \<le> m_maxForce c
      \<or> F = scale3 (normalized T) (m_maxForce c) \<and> magnitude T > m_maxForce c"
    unfolding FT by (rule truncate_cases)
  have velocity: "(let u = m_velocity (store ! m_agent c) + scale3 F deltaTime;
              v = m_velocity (store' ! m_agent c')
          in v = u \<and> magnitude v \<le> m_maxSpeed c'
             \<or> v = scale3 (normalized u) (m_maxSpeed c') \<and> magnitude u > m_maxSpeed c')"
    unfolding Let_def v by (rule truncate_cases)
  have boid: "(let u = m_velocity (boids ! this) + scale3 (Boid_totalForce boids this) deltaTime;
            v = m_velocity (Boid_update deltaTime boids this)
        in v = u \<and> magnitude v \<le> 8
           \<or> v = scale3 (normalized u) 8 \<and> magnitude u > 8)"
    by (simp add: Let_def Boid_update_velocity not_less)
  have sum: "Boid_totalForce boids this
        = scale3 (Boid_calculateSeparation boids this) (m_separationWeight (boids ! this))
          + scale3 (Boid_calculateAlignment boids this) (m_alignmentWeight (boids ! this))
          + scale3 (Boid_calculateCohesion boids this) (m_cohesionWeight (boids ! this))"
    by (simp add: Boid_totalForce_def Let_def)
  from T F force speed velocity boid sum show ?thesis
    by blast
qed

theorem C1_witness:
  "fst (sumForces no_random [agent0] 0 [] (m_behaviors seek_controller) ())
     = Some (Vector3D 10 0 0)
   \<and> steeringForce no_random [agent0] [] seek_controller () = Some (Vector3D 5 0 0)
   \<and> SteeringController_update no_random (1 / 10) [] (seek_controller, [agent0], ())
       = Some (seek_controller,
               [agent0\<lparr>m_position := Vector3D (1 / 20) 0 0, m_velocity := Vector3D (1 / 2) 0 0\<rparr>],
               ())
   \<and> Boid_totalForce chase_store 0 = Vector3D 20 0 0
   \<and> m_velocity (Boid_update (1 / 10) chase_store 0) = Vector3D 2 0 0
   \<and> (\<exists>T F.
      fst (sumForces no_random [agent0] 0 [] (m_behaviors seek_controller) ()) = Some T
      \<and> steeringForce no_random [agent0] [] seek_controller () = Some F
      \<and> F = scale3 (normalized T) 5 \<and> magnitude T > 5
      \<and> m_velocity ([agent0\<lparr>m_position := Vector3D (1 / 20) 0 0,
                              m_velocity := Vector3D (1 / 2) 0 0\<rparr>] ! 0)
          = m_velocity ([agent0] ! 0) + scale3 F (1 / 10)
      \<and> magnitude (m_velocity ([agent0\<lparr>m_position := Vector3D (1 / 20) 0 0,
                              m_velocity := Vector3D (1 / 2) 0 0\<rparr>] ! 0)) \<le> 10)"
proof -
  have T: "fst (sumForces no_random [agent0] 0 [] (m_behaviors seek_controller) ())
     = Some (Vector3D 10 0 0)"
    by (simp add: sumForces_def seek_controller_def new_SteeringController_def
        SeekBehavior_calculate_def agent0_def Let_def normalized_x_axis)
  have F: "steeringForce no_random [agent0] [] seek_controller () = Some (Vector3D 5 0 0)"
    by (simp add: steeringForce_def sumForces_def seek_controller_def new_SteeringController_def
        SeekBehavior_calculate_def agent0_def Let_def normalized_x_axis truncate_def)
  have U: "SteeringController_update no_random (1 / 10) [] (seek_controller, [agent0], ())
       = Some (seek_controller,
               [agent0\<lparr>m_position := Vector3D (1 / 20) 0 0, m_velocity := Vector3D (1 / 2) 0 0\<rparr>],
               ())"
    unfolding SteeringController_update_def
    by (simp add: F)
      (simp add: sumForces_def seek_controller_def new_SteeringController_def
        SeekBehavior_calculate_def agent0_def Let_def normalized_x_axis truncate_def)
  have B: "Boid_totalForce chase_store 0 = Vector3D 20 0 0"
    by (simp add: Boid_totalForce_def Boid_calculateSeparation_def Boid_calculateAlignment_def
        Boid_calculateCohesion_def chase_store_def new_Boid_def Let_def normalized_x_axis)
  have V: "m_velocity (Boid_update (1 / 10) chase_store 0) = Vector3D 2 0 0"
    by (simp add: Boid_update_def Let_def B) (simp add: chase_store_def new_Boid_def)
  have len: "m_agent seek_controller < length [agent0]"
    by (simp add: seek_controller_def new_SteeringController_def)
  show ?thesis
    using C1_speed_and_force_caps [OF U len, where boids = chase_store and this = 0]
    by (simp add: T F U B V)
      (simp add: seek_controller_def new_SteeringController_def agent0_def normalized_x_axis)
qed

text \<open>
  A boid at rest with one neighbour at distance 3 that moves away at speed 3: alignment and
  cohesion each give a force of magnitude 10, \<^verbatim>\<open>Boid::update\<close> integrates their sum of
  magnitude 20 as it is, and the velocity after a call with \<open>deltaTime = 0.1\<close> is that force
  times 0.1. In the controller, a negative \<^verbatim>\<open>maxForce_\<close> lies below the magnitude of every
  force.
\<close>

theorem C1_counterexample:
  "magnitude (m_velocity (chase_store ! 0)) \<le> 8
   \<and> Boid_totalForce chase_store 0 = Vector3D 20 0 0
   \<and> magnitude (Boid_totalForce chase_store 0) = 20
   \<and> \<not> magnitude (Boid_totalForce chase_store 0) \<le> m_maxForce (new_SteeringController 0)
   \<and> m_velocity (Boid_update (1 / 10) chase_store 0) = Vector3D 2 0 0
   \<and> steeringForce no_random [agent0] [] ((new_SteeringController 0)\<lparr>m_maxForce := - 1\<rparr>) ()
       = Some (Vector3D 0 0 0)
   \<and> \<not> magnitude (Vector3D 0 0 0)
         \<le> m_maxForce ((new_SteeringController 0)\<lparr>m_maxForce := - 1\<rparr>)"
proof -
  have F: "Boid_totalForce chase_store 0 = Vector3D 20 0 0"
    by (simp add: Boid_totalForce_def Boid_calculateSeparation_def Boid_calculateAlignment_def
        Boid_calculateCohesion_def chase_store_def new_Boid_def Let_def normalized_x_axis)
  have V: "m_velocity (Boid_update (1 / 10) chase_store 0) = Vector3D 2 0 0"
    by (simp add: Boid_update_def Let_def F) (simp add: chase_store_def new_Boid_def)
  have S: "steeringForce no_random [agent0] [] ((new_SteeringController 0)\<lparr>m_maxForce := - 1\<rparr>) ()
       = Some (Vector3D 0 0 0)"
    by (simp add: steeringForce_def sumForces_def new_SteeringController_def truncate_def
        normalized_def Let_def)
  show ?thesis
    by (simp add: F V S) (simp add: chase_store_def new_Boid_def new_SteeringController_def)
qed

end
